theory Spec2Isabelle
  imports Complex_Main
begin

section \<open>JavaScript values used by the agent\<close>

text \<open>
  Strings are lists of code units; the model keeps to code units below 256, which covers
  the hexadecimal addresses, the decimal identifiers and the ASCII replies the agent
  handles. An error object carries the two fields the source reads: \<open>error.code\<close>
  (absent on a plain \<open>Error\<close>) and \<open>error.message\<close>.
\<close>

datatype js_error = JsError (code: "string option") (message: string)

datatype promise = Fulfilled | Rejected js_error

definition code_unit :: "char \<Rightarrow> nat" where
  "code_unit c = of_char c"

text \<open>\<open>String.prototype.toLowerCase\<close> on code units below 256: A-Z and the Latin-1
  capitals (all of 192..222 but the multiplication sign 215) move up by 32.\<close>

definition toLowerCase_char :: "char \<Rightarrow> char" where
  "toLowerCase_char c =
     (let n = code_unit c in
      if (65 \<le> n \<and> n \<le> 90) \<or> (192 \<le> n \<and> n \<le> 222 \<and> n \<noteq> 215)
      then char_of (n + 32) else c)"

definition toLowerCase :: "string \<Rightarrow> string" where
  "toLowerCase s = map toLowerCase_char s"

text \<open>\<open>String.prototype.replace\<close> with a string pattern: the first occurrence only.\<close>

fun replace :: "string \<Rightarrow> string \<Rightarrow> string \<Rightarrow> string" where
  "replace pat rep [] = (if pat = [] then rep else [])"
| "replace pat rep (c # cs) =
     (if take (length pat) (c # cs) = pat then rep @ drop (length pat) (c # cs)
      else c # replace pat rep cs)"

text \<open>\<open>Number.prototype.toString\<close> (and \<open>BigInt.prototype.toString\<close>) of a
  non-negative integer, radix 10.\<close>

fun toString :: "nat \<Rightarrow> string" where
  "toString n =
     (if n < 10 then [char_of (48 + n)]
      else toString (n div 10) @ [char_of (48 + n mod 10)])"

declare toString.simps [simp del]

subsection \<open>The built-in \<open>parseInt\<close> with no radix argument\<close>

text \<open>
  ECMA-262, \<open>parseInt(string)\<close>: strip leading white space, read an optional sign,
  switch to radix 16 after a \<open>0x\<close>/\<open>0X\<close> prefix, take the longest prefix of digits
  of the radix, and answer \<open>NaN\<close> (here \<open>None\<close>) when that prefix is empty. The
  result is kept as a mathematical integer: the only use the agent makes of it is a
  comparison with a small constant, which rounding to a double cannot change.
\<close>

definition isWhiteSpace :: "char \<Rightarrow> bool" where
  "isWhiteSpace c = (code_unit c \<in> {9, 10, 11, 12, 13, 32, 160})"

definition digitValue :: "char \<Rightarrow> nat option" where
  "digitValue c =
     (let n = code_unit c in
      if 48 \<le> n \<and> n \<le> 57 then Some (n - 48)
      else if 97 \<le> n \<and> n \<le> 122 then Some (n - 87)
      else if 65 \<le> n \<and> n \<le> 90 then Some (n - 55)
      else None)"

definition isRadixDigit :: "nat \<Rightarrow> char \<Rightarrow> bool" where
  "isRadixDigit R c = (case digitValue c of None \<Rightarrow> False | Some d \<Rightarrow> d < R)"

definition parseInt :: "string \<Rightarrow> int option" where
  "parseInt inputString =
     (let S = dropWhile isWhiteSpace inputString;
          sign = (if take 1 S = ''-'' then - 1 else 1 :: int);
          S1 = (if take 1 S = ''+'' \<or> take 1 S = ''-'' then drop 1 S else S);
          hex = (take 2 S1 = ''0x'' \<or> take 2 S1 = ''0X'');
          R = (if hex then 16 else 10);
          S2 = (if hex then drop 2 S1 else S1);
          Z = takeWhile (isRadixDigit R) S2
      in if Z = [] then None
         else Some (sign * int (foldl (\<lambda>a c. a * R + the (digitValue c)) 0 Z)))"

text \<open>\<open>x >= y\<close> on numbers: false whenever \<open>x\<close> is \<open>NaN\<close>.\<close>

definition js_ge :: "int option \<Rightarrow> int \<Rightarrow> bool" where
  "js_ge x y = (case x of None \<Rightarrow> False | Some v \<Rightarrow> v \<ge> y)"

section \<open>The external world\<close>

text \<open>
  Every awaited call is answered by the world: \<open>Inl\<close> (or \<open>None\<close>) is a rejected
  promise, which the source sees as a thrown error. The arguments of
  \<open>event.args\<close> of a \<open>ClaimCreated\<close> log are \<open>id\<close>, \<open>issuer\<close>,
  \<open>bountyId\<close>, \<open>bountyIssuer\<close>, \<open>name\<close> and \<open>description\<close>.
\<close>

record claim_event =
  claim_id :: nat
  issuer :: string
  bountyId :: nat
  bountyIssuer :: string
  claim_name :: string
  claim_description :: string

record bounty =
  bounty_name :: string
  bounty_description :: string

text \<open>The metadata document behind a token URI: JSON \<open>null\<close>, or a value whose
  \<open>image\<close> property is a string or is absent.\<close>

datatype metadata = Metadata_null | Metadata (image: "string option")

text \<open>The value found at \<open>data.choices[0].message.content\<close> of the scoring reply;
  \<open>No_message\<close> when the fetch rejects, the body is not JSON or the path to
  \<open>message\<close> does not exist (a \<open>TypeError\<close>).\<close>

datatype content = Content_string string | Content_null | Content_undefined

datatype completion = No_message | Message content

fun ToString :: "content \<Rightarrow> string" where
  "ToString (Content_string s) = s"
| "ToString Content_null = ''null''"
| "ToString Content_undefined = ''undefined''"

record world =
  getBlockNumber :: "js_error + nat"
  queryFilter_ClaimCreated :: "nat \<Rightarrow> nat \<Rightarrow> js_error + claim_event list"
  bounties :: "nat \<Rightarrow> js_error + bounty"
  acceptClaim :: "nat \<Rightarrow> nat \<Rightarrow> js_error + unit"
  initializeContract :: "js_error + unit"
  tokenURI :: "nat \<Rightarrow> js_error + string"
  fetch_json :: "string \<Rightarrow> js_error + metadata"
  chat_completions :: "string \<Rightarrow> string \<Rightarrow> string \<Rightarrow> completion"
  bountyCounter :: "js_error + nat"

section \<open>Claim verification\<close>

text \<open>
  \<open>verifyClaimWithAI(bountyTitle, bountyDescription, claimId)\<close>. The whole body
  stands in one \<open>try\<close> whose handler returns \<open>false\<close>. The variants of the source
  differ in the literal of the comparison only: 7 in two of them, 9 in the third (which
  also adds the image's content type and length to the prompt).
\<close>

definition verifyClaim :: "int \<Rightarrow> world \<Rightarrow> string \<Rightarrow> string \<Rightarrow> nat \<Rightarrow> bool" where
  "verifyClaim threshold w bountyTitle bountyDescription claimId =
     (case tokenURI w claimId of
        Inl error \<Rightarrow> False
      | Inr uri \<Rightarrow>
          (case fetch_json w (replace ''ipfs://'' ''https://ipfs.io/ipfs/'' uri) of
             Inl error \<Rightarrow> False
           | Inr Metadata_null \<Rightarrow> False
           | Inr (Metadata None) \<Rightarrow> False
           | Inr (Metadata (Some imageUrl)) \<Rightarrow>
               if imageUrl = [] then False
               else
                 (case chat_completions w bountyTitle bountyDescription imageUrl of
                    No_message \<Rightarrow> False
                  | Message c \<Rightarrow> js_ge (parseInt (ToString c)) threshold)))"

definition verifyClaimWithAI :: "world \<Rightarrow> string \<Rightarrow> string \<Rightarrow> nat \<Rightarrow> bool" where
  "verifyClaimWithAI = verifyClaim 7"

definition verifyClaimWithAI_9 :: "world \<Rightarrow> string \<Rightarrow> string \<Rightarrow> nat \<Rightarrow> bool" where
  "verifyClaimWithAI_9 = verifyClaim 9"

section \<open>The process state\<close>

text \<open>
  The module-level variables the callbacks share: \<open>lastProcessedBlock\<close>,
  \<open>usedFallbackIndices\<close> and the \<open>bounties\<close> table behind \<open>db\<close>. A row has the
  columns of the \<open>CREATE TABLE\<close> statement; \<open>db_sequence\<close> is the last key
  \<open>AUTOINCREMENT\<close> handed out. \<open>title\<close> and \<open>description\<close> are \<open>NOT NULL\<close>.
\<close>

record bounty_row =
  row_id :: nat
  row_title :: string
  row_description :: string
  contract_bounty_id :: "string option"
  created_at :: nat

record app =
  lastProcessedBlock :: nat
  usedFallbackIndices :: "nat set"
  db_bounties :: "bounty_row list"
  db_sequence :: nat

section \<open>The claim listener\<close>

text \<open>
  What a callback does to the outside is kept as a trace: the awaited calls, the
  \<open>console\<close> lines, and the one assignment to \<open>lastProcessedBlock\<close>.
\<close>

datatype console =
    Checking_for_claims nat nat
  | New_claim_detected nat nat
  | Skipping_claim nat
  | Verified_accepting nat
  | Accepted_successfully nat
  | Failed_verification nat
  | Error_accepting_claim js_error
  | Error_processing_claim js_error
  | Error_polling js_error
  | Attempting_to_reconnect

datatype effect =
    Call_getBlockNumber
  | Call_queryFilter nat nat
  | Call_bounties nat
  | Call_verifyClaimWithAI string string nat
  | Call_acceptClaim nat nat
  | Call_initializeContract
  | Assign_lastProcessedBlock nat
  | Console console

text \<open>The ownership test of the loop body:
  \<open>bountyIssuer.toLowerCase() !== wallet.address.toLowerCase()\<close> skips the event.\<close>

definition owned :: "string \<Rightarrow> claim_event \<Rightarrow> bool" where
  "owned address e = (toLowerCase (bountyIssuer e) = toLowerCase address)"

text \<open>
  The body of \<open>for (const event of events)\<close>. \<open>verifyClaimWithAI\<close> never throws, so
  inside the inner \<open>try\<close> only \<open>contract.bounties\<close> can; \<open>acceptClaim\<close> and its
  \<open>wait\<close> have a \<open>try\<close> of their own. The function is given the verifier, since the
  variants of the source differ in it.
\<close>

definition handle_event ::
  "(world \<Rightarrow> string \<Rightarrow> string \<Rightarrow> nat \<Rightarrow> bool) \<Rightarrow> world \<Rightarrow> string \<Rightarrow> claim_event \<Rightarrow> effect list" where
  "handle_event verify w address e =
     Console (New_claim_detected (bountyId e) (claim_id e)) #
     (if toLowerCase (bountyIssuer e) \<noteq> toLowerCase address
      then [Console (Skipping_claim (bountyId e))]
      else
        Call_bounties (bountyId e) #
        (case bounties w (bountyId e) of
           Inl error \<Rightarrow> [Console (Error_processing_claim error)]
         | Inr b \<Rightarrow>
             Call_verifyClaimWithAI (bounty_name b) (bounty_description b) (claim_id e) #
             (if verify w (bounty_name b) (bounty_description b) (claim_id e)
              then
                Console (Verified_accepting (claim_id e)) #
                Call_acceptClaim (bountyId e) (claim_id e) #
                (case acceptClaim w (bountyId e) (claim_id e) of
                   Inl error \<Rightarrow> [Console (Error_accepting_claim error)]
                 | Inr u \<Rightarrow> [Console (Accepted_successfully (claim_id e))])
              else [Console (Failed_verification (claim_id e))])))"

fun handle_events ::
  "(world \<Rightarrow> string \<Rightarrow> string \<Rightarrow> nat \<Rightarrow> bool) \<Rightarrow> world \<Rightarrow> string \<Rightarrow> claim_event list \<Rightarrow> effect list" where
  "handle_events verify w address [] = []"
| "handle_events verify w address (e # es) =
     handle_event verify w address e @ handle_events verify w address es"

record outcome =
  app_after :: app
  trace :: "effect list"
  settled :: promise

text \<open>The handler of the outer \<open>try\<close>: the error is logged, and a \<open>NETWORK_ERROR\<close> or
  \<open>UNKNOWN_ERROR\<close> awaits \<open>initializeContract()\<close>, whose own failure leaves the
  callback through its promise.\<close>

definition catch_polling :: "world \<Rightarrow> app \<Rightarrow> effect list \<Rightarrow> js_error \<Rightarrow> outcome" where
  "catch_polling w s done_so_far error =
     (if code error = Some ''NETWORK_ERROR'' \<or> code error = Some ''UNKNOWN_ERROR''
      then
        (let tr = done_so_far @
                  [Console (Error_polling error), Console Attempting_to_reconnect,
                   Call_initializeContract]
         in case initializeContract w of
              Inl failure \<Rightarrow> \<lparr>app_after = s, trace = tr, settled = Rejected failure\<rparr>
            | Inr u \<Rightarrow> \<lparr>app_after = s, trace = tr, settled = Fulfilled\<rparr>)
      else \<lparr>app_after = s, trace = done_so_far @ [Console (Error_polling error)],
             settled = Fulfilled\<rparr>)"

text \<open>One run of the callback given to \<open>setInterval\<close>, from its first statement to the
  settling of its promise.\<close>

definition poll ::
  "(world \<Rightarrow> string \<Rightarrow> string \<Rightarrow> nat \<Rightarrow> bool) \<Rightarrow> world \<Rightarrow> string \<Rightarrow> app \<Rightarrow> outcome" where
  "poll verify w address s =
     (case getBlockNumber w of
        Inl error \<Rightarrow> catch_polling w s [Call_getBlockNumber] error
      | Inr latestBlock \<Rightarrow>
          if latestBlock > lastProcessedBlock s
          then
            (let fetching =
                   [Call_getBlockNumber,
                    Console (Checking_for_claims (lastProcessedBlock s + 1) latestBlock),
                    Call_queryFilter (lastProcessedBlock s + 1) latestBlock]
             in case queryFilter_ClaimCreated w (lastProcessedBlock s + 1) latestBlock of
                  Inl error \<Rightarrow> catch_polling w s fetching error
                | Inr events \<Rightarrow>
                    \<lparr>app_after = s\<lparr>lastProcessedBlock := latestBlock\<rparr>,
                     trace = fetching @ handle_events verify w address events @
                             [Assign_lastProcessedBlock latestBlock],
                     settled = Fulfilled\<rparr>)
          else \<lparr>app_after = s, trace = [Call_getBlockNumber], settled = Fulfilled\<rparr>)"

definition tick :: "world \<Rightarrow> string \<Rightarrow> app \<Rightarrow> outcome" where
  "tick = poll verifyClaimWithAI"

text \<open>Runs of the callback that follow one another, each started after the one before
  has settled and each against the world of its moment; the list holds the state after
  each run.\<close>

fun polls ::
  "(world \<Rightarrow> string \<Rightarrow> string \<Rightarrow> nat \<Rightarrow> bool) \<Rightarrow> world list \<Rightarrow> string \<Rightarrow> app \<Rightarrow> app list" where
  "polls verify [] address s = []"
| "polls verify (w # ws) address s =
     app_after (poll verify w address s) #
     polls verify ws address (app_after (poll verify w address s))"

subsection \<open>Callbacks that overlap\<close>

text \<open>
  The callback is asynchronous and \<open>setInterval\<close> does not wait for its promise, so a
  callback can be started while an earlier one is still awaiting. A callback touches
  \<open>lastProcessedBlock\<close> at two moments only: when the height has been read (the
  comparison and the arguments of \<open>queryFilter\<close> are evaluated then), and at the
  assignment that ends the \<open>try\<close> block. \<open>start\<close> is the callback up to the end of the
  handling of the events, on the state it is started on: \<open>None\<close> when it will assign
  nothing (no new block, or the read or the fetch failed), else the height it holds in
  \<open>latestBlock\<close> and what it has done. \<open>finish\<close> is the assignment, on the state of
  that later moment.
\<close>

record run =
  height :: nat
  performed :: "effect list"

definition start ::
  "(world \<Rightarrow> string \<Rightarrow> string \<Rightarrow> nat \<Rightarrow> bool) \<Rightarrow> world \<Rightarrow> string \<Rightarrow> app \<Rightarrow> run option" where
  "start verify w address s =
     (case getBlockNumber w of
        Inl error \<Rightarrow> None
      | Inr latest \<Rightarrow>
          if latest > lastProcessedBlock s
          then
            (case queryFilter_ClaimCreated w (lastProcessedBlock s + 1) latest of
               Inl error \<Rightarrow> None
             | Inr events \<Rightarrow>
                 Some \<lparr>height = latest,
                       performed =
                         [Call_getBlockNumber,
                          Console (Checking_for_claims (lastProcessedBlock s + 1) latest),
                          Call_queryFilter (lastProcessedBlock s + 1) latest]
                         @ handle_events verify w address events\<rparr>)
          else None)"

definition finish :: "run \<Rightarrow> app \<Rightarrow> app" where
  "finish r s = s\<lparr>lastProcessedBlock := height r\<rparr>"

text \<open>
  The timer and the event loop: \<open>Fire i w\<close> starts callback \<open>i\<close> against the world
  \<open>w\<close>, \<open>Settle i\<close> lets callback \<open>i\<close> run to its end. \<open>trajectory\<close> lists the value
  of \<open>lastProcessedBlock\<close> before the first action and after each. \<open>in_turn\<close> is
  the order of actions in which no two callbacks overlap.
\<close>

datatype action = Fire nat world | Settle nat

record event_loop =
  app_now :: app
  awaiting :: "(nat \<times> run) list"

fun act ::
  "(world \<Rightarrow> string \<Rightarrow> string \<Rightarrow> nat \<Rightarrow> bool) \<Rightarrow> string \<Rightarrow> action \<Rightarrow> event_loop \<Rightarrow> event_loop" where
  "act verify address (Fire i w) L =
     (case start verify w address (app_now L) of
        None \<Rightarrow> L
      | Some r \<Rightarrow> L\<lparr>awaiting := awaiting L @ [(i, r)]\<rparr>)"
| "act verify address (Settle i) L =
     (case map_of (awaiting L) i of
        None \<Rightarrow> L
      | Some r \<Rightarrow> L\<lparr>app_now := finish r (app_now L),
                     awaiting := filter (\<lambda>p. fst p \<noteq> i) (awaiting L)\<rparr>)"

fun trajectory ::
  "(world \<Rightarrow> string \<Rightarrow> string \<Rightarrow> nat \<Rightarrow> bool) \<Rightarrow> string \<Rightarrow> action list \<Rightarrow> event_loop \<Rightarrow> nat list" where
  "trajectory verify address [] L = [lastProcessedBlock (app_now L)]"
| "trajectory verify address (x # xs) L =
     lastProcessedBlock (app_now L) # trajectory verify address xs (act verify address x L)"

fun in_turn :: "world list \<Rightarrow> action list" where
  "in_turn [] = []"
| "in_turn (w # ws) = Fire 0 w # Settle 0 # in_turn ws"

definition idle :: "app \<Rightarrow> event_loop" where
  "idle s = \<lparr>app_now = s, awaiting = []\<rparr>"

section \<open>The bounties table\<close>

text \<open>
  \<open>INSERT INTO bounties\<close>: the key is the next of the sequence and \<open>created_at\<close>
  defaults to the clock. \<open>UPDATE bounties SET contract_bounty_id = ? WHERE id = ?\<close>
  rewrites the rows of that key. \<open>ORDER BY created_at DESC\<close> is modelled as a stable
  sort, so that rows of the same second keep the order of their keys (SQL leaves their
  order open).
\<close>

definition db_insert :: "string \<Rightarrow> string \<Rightarrow> string option \<Rightarrow> nat \<Rightarrow> app \<Rightarrow> app" where
  "db_insert t d cid now s =
     s\<lparr>db_bounties := db_bounties s @
          [\<lparr>row_id = db_sequence s + 1, row_title = t, row_description = d,
            contract_bounty_id = cid, created_at = now\<rparr>],
       db_sequence := db_sequence s + 1\<rparr>"

definition db_update_contract_bounty_id :: "string \<Rightarrow> nat \<Rightarrow> app \<Rightarrow> app" where
  "db_update_contract_bounty_id cid key s =
     s\<lparr>db_bounties :=
          map (\<lambda>r. if row_id r = key then r\<lparr>contract_bounty_id := Some cid\<rparr> else r)
            (db_bounties s)\<rparr>"

definition order_by_created_at_desc :: "bounty_row list \<Rightarrow> bounty_row list" where
  "order_by_created_at_desc rows = sort_key (\<lambda>r. - int (created_at r)) rows"

fun join :: "string \<Rightarrow> string list \<Rightarrow> string" where
  "join sep [] = []"
| "join sep [x] = x"
| "join sep (x # y # ys) = x @ sep @ join sep (y # ys)"

section \<open>Bounty content\<close>

record idea =
  title :: string
  description :: string

definition fallbackBounties :: "idea list" where
  "fallbackBounties =
     [\<lparr>title = ''Top Hat Tea Time'',
       description = ''Share a photo of yourself enjoying tea while wearing a distinguished top hat in an unexpected location.''\<rparr>,
      \<lparr>title = ''Formal Pet Portrait'',
       description = ''Dress your pet in a top hat and take a Victorian-style portrait photo.''\<rparr>,
      \<lparr>title = ''Top Hat Trick Shot'',
       description = ''Capture a photo of yourself successfully landing a small object into a top hat from at least 10 feet away.''\<rparr>,
      \<lparr>title = ''Historical Hat Recreation'',
       description = ''Recreate a famous historical photo or painting while wearing a top hat.''\<rparr>,
      \<lparr>title = ''Top Hat Garden Party'',
       description = ''Host an impromptu garden party with at least 3 people wearing top hats, even if it'' @ [CHR 0x27] @ ''s in your living room.''\<rparr>,
      \<lparr>title = ''Breakfast with Class'',
       description = ''Take a photo of your morning breakfast setup with a miniature top hat perched on something in the scene.''\<rparr>,
      \<lparr>title = ''Top Hat Transportation'',
       description = ''Capture yourself wearing a top hat while using an unusual form of transportation (skateboard, unicycle, etc).''\<rparr>,
      \<lparr>title = ''Hat Stack Challenge'',
       description = ''Successfully balance and photograph at least 3 top hats stacked on your head.''\<rparr>,
      \<lparr>title = ''Top Hat Wildlife'',
       description = ''Edit a top hat onto a photo you take of local wildlife (bird, squirrel, etc).''\<rparr>,
      \<lparr>title = ''Formal Fitness'',
       description = ''Share a photo of yourself exercising while wearing a top hat.''\<rparr>]"

text \<open>
  What one run of the issuance meets. \<open>generated\<close> is the outcome of the \<open>try\<close> block
  of \<open>generateBountyIdea\<close> up to \<open>JSON.parse\<close>, for the prompt's list of recent
  titles: an error, or the \<open>title\<close> and \<open>description\<close> properties of the parsed
  object (\<open>None\<close> when absent). \<open>Math_random\<close> is the value \<open>Math.random()\<close> would
  return. A parsed log of the receipt is \<open>None\<close> when \<open>parseLog\<close> threw or found no
  fragment.
\<close>

record log_description =
  log_name :: string
  log_args_id :: nat

record receipt =
  logs :: "log_description option list"
  blockNumber :: nat
  transactionHash :: string

record bounty_created =
  event_args_id :: nat
  event_transactionHash :: string

record issuance =
  generated :: "string \<Rightarrow> js_error + (string option \<times> string option)"
  Math_random :: real
  createSoloBounty :: "string \<Rightarrow> string \<Rightarrow> js_error + string"
  wait :: "string \<Rightarrow> js_error + receipt"
  queryFilter_BountyCreated :: "nat \<Rightarrow> nat \<Rightarrow> js_error + bounty_created list"
  time_of_generation :: nat
  time_of_confirmation :: nat

text \<open>
  The \<open>catch\<close> block of \<open>generateBountyIdea\<close>. An index outside the array reads
  \<open>undefined\<close> in the source: the set of used indices then gains no number and the
  function returns \<open>undefined\<close>, here \<open>None\<close>. The source floors the product as
  rounded to a double, the model the exact product, so that at the same value of
  \<open>Math.random()\<close> the two can draw neighbouring indices; \<open>random\<close> stands for any
  number of the unit interval whose exact product floors to the index the source
  draws (\<open>every_index_is_drawn\<close>: there is one for each index below the length).
\<close>

definition fallback :: "real \<Rightarrow> app \<Rightarrow> app \<times> idea option" where
  "fallback random s =
     (let unused = filter (\<lambda>i. i \<notin> usedFallbackIndices s) [0..<length fallbackBounties];
          used = (if unused = [] then {} else usedFallbackIndices s);
          availableIndices = (if unused = [] then [0..<length fallbackBounties] else unused);
          k = \<lfloor>random * real (length availableIndices)\<rfloor>
      in if 0 \<le> k \<and> k < int (length availableIndices)
         then (let randomIndex = availableIndices ! nat k
               in (s\<lparr>usedFallbackIndices := insert randomIndex used\<rparr>,
                   Some (fallbackBounties ! randomIndex)))
         else (s\<lparr>usedFallbackIndices := used\<rparr>, None))"

definition recentTitles :: "app \<Rightarrow> string" where
  "recentTitles s =
     join [CHR 0x0A] (map row_title (take 100 (order_by_created_at_desc (db_bounties s))))"

definition generateBountyIdea :: "issuance \<Rightarrow> app \<Rightarrow> app \<times> idea option" where
  "generateBountyIdea w s =
     (case generated w (recentTitles s) of
        Inl error \<Rightarrow> fallback (Math_random w) s
      | Inr (Some t, Some d) \<Rightarrow>
          (db_insert t d None (time_of_generation w) s, Some \<lparr>title = t, description = d\<rparr>)
      | Inr (t, d) \<Rightarrow> fallback (Math_random w) s)"

section \<open>Bounty creation\<close>

definition bounty_id_not_found :: js_error where
  "bounty_id_not_found = JsError None ''Bounty ID not found in transaction events''"

definition type_error :: js_error where
  "type_error = JsError None ''TypeError''"

text \<open>
  \<open>createBounty()\<close>: every error is logged and thrown again, so the result is the
  error (\<open>Inl\<close>) or the identifier as a string (\<open>Inr\<close>).
\<close>

definition createBounty :: "issuance \<Rightarrow> app \<Rightarrow> app \<times> (js_error + string)" where
  "createBounty w s =
     (case generateBountyIdea w s of
        (s1, None) \<Rightarrow> (s1, Inl type_error)
      | (s1, Some bountyContent) \<Rightarrow>
          (case createSoloBounty w (title bountyContent) (description bountyContent) of
             Inl error \<Rightarrow> (s1, Inl error)
           | Inr tx \<Rightarrow>
               (case wait w tx of
                  Inl error \<Rightarrow> (s1, Inl error)
                | Inr rcpt \<Rightarrow>
                    (case find (\<lambda>event. log_name event = ''BountyCreated'')
                            (map the (filter (\<lambda>event. event \<noteq> None) (logs rcpt))) of
                       Some bountyCreatedEvent \<Rightarrow>
                         (let bountyId = toString (log_args_id bountyCreatedEvent)
                          in (db_insert (title bountyContent) (description bountyContent)
                                (Some bountyId) (time_of_confirmation w) s1,
                              Inr bountyId))
                     | None \<Rightarrow>
                         (case queryFilter_BountyCreated w (blockNumber rcpt) (blockNumber rcpt) of
                            Inl error \<Rightarrow> (s1, Inl error)
                          | Inr events \<Rightarrow>
                              (case find (\<lambda>event. event_transactionHash event =
                                                   transactionHash rcpt) events of
                                 Some event \<Rightarrow> (s1, Inr (toString (event_args_id event)))
                               | None \<Rightarrow> (s1, Inl bounty_id_not_found)))))))"

text \<open>The callback of \<open>cron.schedule\<close> awaits \<open>createBounty()\<close> with no handler; the
  route \<open>/create-bounty\<close> wraps the same call in a \<open>try\<close> and answers with status 500.\<close>

definition cron_callback :: "issuance \<Rightarrow> app \<Rightarrow> app \<times> promise" where
  "cron_callback w s =
     (case createBounty w s of
        (s', Inl error) \<Rightarrow> (s', Rejected error)
      | (s', Inr created) \<Rightarrow> (s', Fulfilled))"

datatype create_response = Created string string | Status_500 string

definition create_bounty_route :: "issuance \<Rightarrow> app \<Rightarrow> app \<times> create_response" where
  "create_bounty_route w s =
     (case createBounty w s of
        (s', Inl error) \<Rightarrow>
          (s', Status_500 (if message error = [] then ''Failed to create bounty''
                           else message error))
      | (s', Inr created) \<Rightarrow>
          if created = [] then (s', Status_500 ''Failed to retrieve bounty ID'')
          else (s', Created created (''https://poidh.xyz/degen/bounty/'' @ created)))"

section \<open>The process\<close>

text \<open>
  The two callbacks are invoked from outside the source: the interval timer of the
  runtime and the scheduler behind \<open>cron.schedule\<close>. What becomes of a callback whose
  promise is rejected is decided there and not in the source, so it is a parameter:
  \<open>scheduler_absorbs\<close> says that the scheduler handles the rejected promise of a daily
  task and keeps it scheduled, \<open>timer_absorbs\<close> that the runtime lets a rejected
  promise of the interval callback pass. Without them the rejection ends the process.
  \<open>serve\<close> handles one trigger; a process that no longer runs serves nothing.
\<close>

datatype trigger = Interval world | Daily issuance

record host =
  scheduler_absorbs :: bool
  timer_absorbs :: bool

record process =
  app_of :: app
  running :: bool
  served :: "promise list"

definition serve ::
  "host \<Rightarrow> (world \<Rightarrow> string \<Rightarrow> string \<Rightarrow> nat \<Rightarrow> bool) \<Rightarrow> string \<Rightarrow> trigger \<Rightarrow> process \<Rightarrow> process" where
  "serve h verify address x P =
     (if \<not> running P then P
      else
        (case x of
           Interval w \<Rightarrow>
             (let out = poll verify w address (app_of P)
              in \<lparr>app_of = app_after out,
                  running = (settled out = Fulfilled \<or> timer_absorbs h),
                  served = served P @ [settled out]\<rparr>)
         | Daily w \<Rightarrow>
             (let out = cron_callback w (app_of P)
              in \<lparr>app_of = fst out,
                  running = (snd out = Fulfilled \<or> scheduler_absorbs h),
                  served = served P @ [snd out]\<rparr>)))"




section \<open>Identifier backfill\<close>

text \<open>
  \<open>findContractBountyId(title, description)\<close>. The loop
  \<open>for (let i = totalBounties - 1; i >= 0; i--)\<close> is a recursion on the number of
  indices still to visit; a lookup that throws is logged and the loop continues. The
  second component lists the indices looked up, in the order of the calls.
\<close>

fun scan :: "world \<Rightarrow> string \<Rightarrow> string \<Rightarrow> nat \<Rightarrow> string option \<times> nat list" where
  "scan w t d 0 = (None, [])"
| "scan w t d (Suc i) =
     (case bounties w i of
        Inl error \<Rightarrow> (fst (scan w t d i), i # snd (scan w t d i))
      | Inr b \<Rightarrow>
          if bounty_name b = t \<and> bounty_description b = d then (Some (toString i), [i])
          else (fst (scan w t d i), i # snd (scan w t d i)))"

definition findContractBountyId :: "world \<Rightarrow> string \<Rightarrow> string \<Rightarrow> string option \<times> nat list" where
  "findContractBountyId w t d =
     (case bountyCounter w of
        Inl error \<Rightarrow> (None, [])
      | Inr totalBounties \<Rightarrow> scan w t d totalBounties)"

text \<open>
  The route \<open>/current-bounty\<close> up to the repair of the identifier: the latest row is
  read, and when its \<open>contract_bounty_id\<close> is falsy (\<open>NULL\<close> or the empty string) the
  ledger is scanned and a truthy result is written back. The result lists the
  \<open>UPDATE\<close> statements run and the \<open>bountyId\<close> the response is built from
  (\<open>None\<close> with status 404 when the table is empty).
\<close>

datatype db_write = Update_contract_bounty_id string nat

record repair =
  app_repaired :: app
  writes :: "db_write list"
  lookups :: "nat list"
  response_bountyId :: "string option"
  status :: nat

definition current_bounty :: "world \<Rightarrow> app \<Rightarrow> repair" where
  "current_bounty w s =
     (case order_by_created_at_desc (db_bounties s) of
        [] \<Rightarrow> \<lparr>app_repaired = s, writes = [], lookups = [], response_bountyId = None,
               status = 404\<rparr>
      | latestBounty # older \<Rightarrow>
          if contract_bounty_id latestBounty = None \<or> contract_bounty_id latestBounty = Some []
          then
            (case findContractBountyId w (row_title latestBounty) (row_description latestBounty) of
               (Some contractId, visited) \<Rightarrow>
                 if contractId \<noteq> []
                 then \<lparr>app_repaired = db_update_contract_bounty_id contractId (row_id latestBounty) s,
                       writes = [Update_contract_bounty_id contractId (row_id latestBounty)],
                       lookups = visited, response_bountyId = Some contractId, status = 200\<rparr>
                 else \<lparr>app_repaired = s, writes = [], lookups = visited,
                       response_bountyId = contract_bounty_id latestBounty, status = 200\<rparr>
             | (None, visited) \<Rightarrow>
                 \<lparr>app_repaired = s, writes = [], lookups = visited,
                  response_bountyId = contract_bounty_id latestBounty, status = 200\<rparr>)
          else \<lparr>app_repaired = s, writes = [], lookups = [],
                response_bountyId = contract_bounty_id latestBounty, status = 200\<rparr>)"

section \<open>Notions used in the statements\<close>

text \<open>The image reference that lines 119 to 128 of \<open>verifyClaimWithAI\<close> arrive at, or
  \<open>None\<close> when the token URI, the metadata document or its \<open>image\<close> cannot be
  had.\<close>

definition resolved_image :: "world \<Rightarrow> nat \<Rightarrow> string option" where
  "resolved_image w claimId =
     (case tokenURI w claimId of
        Inl error \<Rightarrow> None
      | Inr uri \<Rightarrow>
          (case fetch_json w (replace ''ipfs://'' ''https://ipfs.io/ipfs/'' uri) of
             Inl error \<Rightarrow> None
           | Inr Metadata_null \<Rightarrow> None
           | Inr (Metadata None) \<Rightarrow> None
           | Inr (Metadata (Some imageUrl)) \<Rightarrow> if imageUrl = [] then None else Some imageUrl))"






text \<open>The values assigned to \<open>lastProcessedBlock\<close> in a trace, the settlement attempts
  in it, and whether an effect is more than a \<open>console\<close> line.\<close>

fun assignments :: "effect list \<Rightarrow> nat list" where
  "assignments [] = []"
| "assignments (Assign_lastProcessedBlock n # tr) = n # assignments tr"
| "assignments (x # tr) = assignments tr"

fun settlements :: "effect list \<Rightarrow> (nat \<times> nat) list" where
  "settlements [] = []"
| "settlements (Call_acceptClaim b c # tr) = (b, c) # settlements tr"
| "settlements (x # tr) = settlements tr"

fun is_console :: "effect \<Rightarrow> bool" where
  "is_console (Console line) = True"
| "is_console x = False"

text \<open>Index \<open>i\<close> of the ledger holds a bounty of that title and description, and the
  lookup returns it.\<close>

definition matches :: "world \<Rightarrow> string \<Rightarrow> string \<Rightarrow> nat \<Rightarrow> bool" where
  "matches w t d i =
     (case bounties w i of
        Inl error \<Rightarrow> False
      | Inr b \<Rightarrow> bounty_name b = t \<and> bounty_description b = d)"

text \<open>The generative service gives no content that can be stored: the request or the
  parse throws, or a \<open>NOT NULL\<close> column would be missing.\<close>

definition generation_fails :: "issuance \<Rightarrow> bool" where
  "generation_fails w =
     (\<forall>titles. case generated w titles of
                  Inl error \<Rightarrow> True
                | Inr (Some t, Some d) \<Rightarrow> False
                | Inr (t, d) \<Rightarrow> True)"

definition unit_interval :: "real \<Rightarrow> bool" where
  "unit_interval u = (0 \<le> u \<and> u < 1)"

text \<open>Calls of \<open>generateBountyIdea\<close> one after the other: the contents returned.\<close>

fun generate_all :: "issuance list \<Rightarrow> app \<Rightarrow> idea option list" where
  "generate_all [] s = []"
| "generate_all (w # ws) s =
     snd (generateBountyIdea w s) # generate_all ws (fst (generateBountyIdea w s))"

fun app_after_all :: "issuance list \<Rightarrow> app \<Rightarrow> app" where
  "app_after_all [] s = s"
| "app_after_all (w # ws) s = app_after_all ws (fst (generateBountyIdea w s))"

section \<open>Example worlds\<close>

text \<open>
  A state with the cursor at block 100 and an empty table; a ledger at block 105 whose
  range 101 to 105 holds two claims on bounty 3, the first against a bounty of the
  agent (the address differs in case only), the second against another issuer's; a
  scoring service that answers 8.
\<close>

definition agent :: string where
  "agent = ''0xA11CE''"

definition app_100 :: app where
  "app_100 = \<lparr>lastProcessedBlock = 100, usedFallbackIndices = {}, db_bounties = [],
              db_sequence = 0\<rparr>"

definition claim_7 :: claim_event where
  "claim_7 = \<lparr>claim_id = 7, issuer = ''0xC0FFEE'', bountyId = 3, bountyIssuer = ''0xa11ce'',
              claim_name = ''hat'', claim_description = ''photo''\<rparr>"

definition claim_8 :: claim_event where
  "claim_8 = \<lparr>claim_id = 8, issuer = ''0xBEEF'', bountyId = 3, bountyIssuer = ''0xB0B'',
              claim_name = ''cap'', claim_description = ''photo''\<rparr>"

definition network_error :: js_error where
  "network_error = JsError (Some ''NETWORK_ERROR'') ''network down''"

definition world_105 :: world where
  "world_105 =
     \<lparr>getBlockNumber = Inr 105,
      queryFilter_ClaimCreated =
        (\<lambda>a b. if a = 101 \<and> b = 105 then Inr [claim_7, claim_8] else Inr []),
      bounties = (\<lambda>i. if i = 3
                       then Inr \<lparr>bounty_name = ''Top Hat Tea Time'', bounty_description = ''Tea''\<rparr>
                       else Inl (JsError (Some ''CALL_EXCEPTION'') ''no such bounty'')),
      acceptClaim = (\<lambda>b c. Inr ()),
      initializeContract = Inr (),
      tokenURI = (\<lambda>c. Inr ''ipfs://Qm1''),
      fetch_json = (\<lambda>u. if u = ''https://ipfs.io/ipfs/Qm1''
                         then Inr (Metadata (Some ''https://img.example/1.png''))
                         else Inl (JsError None ''fetch failed'')),
      chat_completions = (\<lambda>t d u. Message (Content_string ''8'')),
      bountyCounter = Inr 5\<rparr>"

definition world_down :: world where
  "world_down = world_105\<lparr>getBlockNumber := Inl network_error\<rparr>"

definition world_no_score :: world where
  "world_no_score = world_105\<lparr>chat_completions := (\<lambda>t d u. Message (Content_string ''N/A''))\<rparr>"



definition world_110 :: world where
  "world_110 = world_105\<lparr>getBlockNumber := Inr 110,
                 queryFilter_ClaimCreated := (\<lambda>a b. Inr [])\<rparr>"

definition claim_9 :: claim_event where
  "claim_9 = \<lparr>claim_id = 9, issuer = ''0xD00D'', bountyId = 4, bountyIssuer = ''0xA11CE'',
              claim_name = ''hat'', claim_description = ''photo''\<rparr>"

definition reverted :: js_error where
  "reverted = JsError (Some ''CALL_EXCEPTION'') ''execution reverted''"

definition world_faulty :: world where
  "world_faulty =
     world_105\<lparr>queryFilter_ClaimCreated :=
                  (\<lambda>a b. if a = 101 \<and> b = 105 then Inr [claim_9, claim_7, claim_8] else Inr []),
               acceptClaim := (\<lambda>b c. Inl reverted)\<rparr>"

definition overlap :: "action list" where
  "overlap = [Fire 1 world_105, Fire 2 world_110, Settle 2, Settle 1]"


text \<open>
  Runs of the issuance: one in which the generative service is unreachable, one in which
  it answers and the receipt carries the \<open>BountyCreated\<close> log, one in which it answers
  and only the query of the block finds the event, and one in which neither the receipt
  nor the block shows the event.
\<close>

definition issuance_offline :: issuance where
  "issuance_offline =
     \<lparr>generated = (\<lambda>titles. Inl (JsError None ''fetch failed'')),
      Math_random = 0,
      createSoloBounty = (\<lambda>t d. Inr ''0xfeed''),
      wait = (\<lambda>tx. Inr \<lparr>logs = [None, Some \<lparr>log_name = ''BountyCreated'', log_args_id = 42\<rparr>],
                         blockNumber = 900, transactionHash = ''0xfeed''\<rparr>),
      queryFilter_BountyCreated = (\<lambda>a b. Inr []),
      time_of_generation = 1000,
      time_of_confirmation = 1002\<rparr>"

definition issuance_receipt :: issuance where
  "issuance_receipt =
     issuance_offline\<lparr>generated := (\<lambda>titles. Inr (Some ''Hat Day'', Some ''Wear a hat''))\<rparr>"

definition issuance_polling :: issuance where
  "issuance_polling =
     issuance_receipt
       \<lparr>wait := (\<lambda>tx. Inr \<lparr>logs = [None], blockNumber = 900, transactionHash = ''0xfeed''\<rparr>),
        queryFilter_BountyCreated :=
          (\<lambda>a b. if a = 900 \<and> b = 900
                  then Inr [\<lparr>event_args_id = 41, event_transactionHash = ''0xdead''\<rparr>,
                            \<lparr>event_args_id = 42, event_transactionHash = ''0xfeed''\<rparr>]
                  else Inr [])\<rparr>"

definition issuance_unresolved :: issuance where
  "issuance_unresolved = issuance_polling\<lparr>queryFilter_BountyCreated := (\<lambda>a b. Inr [])\<rparr>"

text \<open>A table whose only row is a draft with no identifier, and a ledger of five bounties
  in which index 3 holds that draft, index 4 cannot be read and index 1 holds the same
  title and description once more.\<close>

definition app_draft :: app where
  "app_draft =
     \<lparr>lastProcessedBlock = 100, usedFallbackIndices = {},
      db_bounties = [\<lparr>row_id = 1, row_title = ''Hat Day'', row_description = ''Wear a hat'',
                      contract_bounty_id = None, created_at = 1000\<rparr>],
      db_sequence = 1\<rparr>"

definition world_ledger :: world where
  "world_ledger =
     world_105
       \<lparr>bounties :=
          (\<lambda>i. if i = 4 then Inl (JsError (Some ''CALL_EXCEPTION'') ''lookup failed'')
                else if i = 3 \<or> i = 1
                then Inr \<lparr>bounty_name = ''Hat Day'', bounty_description = ''Wear a hat''\<rparr>
                else Inr \<lparr>bounty_name = ''Other'', bounty_description = ''Other''\<rparr>)\<rparr>"

section \<open>Claim verification: threshold and fail-closed behaviour\<close>

lemma verifyClaim_resolved:
  "verifyClaim threshold w t d claimId =
     (case resolved_image w claimId of
        None \<Rightarrow> False
      | Some imageUrl \<Rightarrow>
          (case chat_completions w t d imageUrl of
             No_message \<Rightarrow> False
           | Message c \<Rightarrow> js_ge (parseInt (ToString c)) threshold))"
  by (simp add: verifyClaim_def resolved_image_def split: sum.splits metadata.splits option.splits)



text \<open>A content that begins with an integer carries that integer as its score,
  whatever follows it.\<close>

lemma leading_integer_is_read:
  "parseInt ''9abc'' = Some 9 \<and> parseInt ''8/10'' = Some 8
   \<and> parseInt '' -3'' = Some (- 3) \<and> parseInt ''0x10'' = Some 16"
  by code_simp

text \<open>
  Claim C2. Once the evidence is resolved and the reply of the scoring service is read
  as the integer \<open>score\<close>, the decision is \<open>score \<ge> threshold\<close>: a score equal to the
  threshold is accepted, a score one below it is rejected. The source fixes the
  threshold as 7 (\<open>verifyClaimWithAI\<close>) or as 9 (\<open>verifyClaimWithAI_9\<close>).
\<close>

theorem threshold_decision:
  assumes "resolved_image w claimId = Some imageUrl"
    and "chat_completions w t d imageUrl = Message c"
    and "parseInt (ToString c) = Some score"
  shows "verifyClaim threshold w t d claimId = (score \<ge> threshold)
       \<and> (score = threshold \<longrightarrow> verifyClaim threshold w t d claimId)
       \<and> (score = threshold - 1 \<longrightarrow> \<not> verifyClaim threshold w t d claimId)
       \<and> verifyClaimWithAI w t d claimId = (score \<ge> 7)
       \<and> verifyClaimWithAI_9 w t d claimId = (score \<ge> 9)"
  using assms
  by (simp add: verifyClaim_resolved verifyClaimWithAI_def verifyClaimWithAI_9_def js_ge_def)

theorem threshold_decision_witness:
  "verifyClaimWithAI world_105 ''Top Hat Tea Time'' ''Tea'' 7
   \<and> \<not> verifyClaimWithAI_9 world_105 ''Top Hat Tea Time'' ''Tea'' 7
   \<and> verifyClaim 8 world_105 ''Top Hat Tea Time'' ''Tea'' 7"
proof -
  have a: "resolved_image world_105 7 = Some ''https://img.example/1.png''"
    by (simp add: resolved_image_def world_105_def)
  have b: "chat_completions world_105 ''Top Hat Tea Time'' ''Tea'' ''https://img.example/1.png''
           = Message (Content_string ''8'')"
    by (simp add: world_105_def)
  have c: "parseInt (ToString (Content_string ''8'')) = Some 8"
    by code_simp
  show ?thesis
    using threshold_decision [OF a b c, of 8] by simp
qed







section \<open>The claim listener\<close>

lemma catch_polling_app: "app_after (catch_polling w s tr e) = s"
  by (simp add: catch_polling_def Let_def split: sum.splits)

lemma assignments_append: "assignments (xs @ ys) = assignments xs @ assignments ys"
  by (induction xs rule: assignments.induct) simp_all

lemma assignments_handle_event: "assignments (handle_event verify w a e) = []"
  by (simp add: handle_event_def split: sum.splits)

lemma assignments_handle_events: "assignments (handle_events verify w a es) = []"
  by (induction es) (simp_all add: assignments_append assignments_handle_event)

lemma catch_polling_assignments:
  "assignments (trace (catch_polling w s tr e)) = assignments tr"
  by (simp add: catch_polling_def Let_def assignments_append split: sum.splits)

lemma handle_events_concat:
  "handle_events verify w a es = concat (map (handle_event verify w a) es)"
  by (induction es) simp_all


lemma poll_cases:
  "(\<exists>e. getBlockNumber w = Inl e \<and> poll verify w a s = catch_polling w s [Call_getBlockNumber] e)
   \<or> (\<exists>latest. getBlockNumber w = Inr latest \<and> latest \<le> lastProcessedBlock s
        \<and> poll verify w a s = \<lparr>app_after = s, trace = [Call_getBlockNumber], settled = Fulfilled\<rparr>)
   \<or> (\<exists>latest e. getBlockNumber w = Inr latest \<and> lastProcessedBlock s < latest
        \<and> queryFilter_ClaimCreated w (lastProcessedBlock s + 1) latest = Inl e
        \<and> poll verify w a s = catch_polling w s
             [Call_getBlockNumber,
              Console (Checking_for_claims (lastProcessedBlock s + 1) latest),
              Call_queryFilter (lastProcessedBlock s + 1) latest] e)
   \<or> (\<exists>latest events. getBlockNumber w = Inr latest \<and> lastProcessedBlock s < latest
        \<and> queryFilter_ClaimCreated w (lastProcessedBlock s + 1) latest = Inr events
        \<and> poll verify w a s =
            \<lparr>app_after = s\<lparr>lastProcessedBlock := latest\<rparr>,
             trace = [Call_getBlockNumber,
                      Console (Checking_for_claims (lastProcessedBlock s + 1) latest),
                      Call_queryFilter (lastProcessedBlock s + 1) latest]
                     @ handle_events verify w a events @ [Assign_lastProcessedBlock latest],
             settled = Fulfilled\<rparr>)"
  by (cases "getBlockNumber w")
     (auto simp: poll_def Let_def split: sum.splits)

lemma poll_monotone: "lastProcessedBlock s \<le> lastProcessedBlock (app_after (poll verify w a s))"
  using poll_cases [of w verify a s] by (auto simp: catch_polling_app)

lemma polls_sorted:
  "sorted (map lastProcessedBlock (s # polls verify ws a s))"
proof (induction ws arbitrary: s)
  case Nil
  then show ?case by simp
next
  case (Cons w ws)
  let ?s' = "app_after (poll verify w a s)"
  have step: "lastProcessedBlock s \<le> lastProcessedBlock ?s'" by (rule poll_monotone)
  have rest: "sorted (map lastProcessedBlock (?s' # polls verify ws a ?s'))" by (rule Cons.IH)
  from step rest show ?case by auto
qed

lemma poll_assignments:
  "assignments (trace (poll verify w a s)) =
     (if lastProcessedBlock (app_after (poll verify w a s)) = lastProcessedBlock s then []
      else [lastProcessedBlock (app_after (poll verify w a s))])"
  using poll_cases [of w verify a s]
  by (auto simp: catch_polling_app catch_polling_assignments assignments_append assignments_handle_events)


lemma start_None:
  assumes "start verify w a s = None"
  shows "app_after (poll verify w a s) = s \<and> assignments (trace (poll verify w a s)) = []"
  using assms poll_cases [of w verify a s]
  by (auto simp: start_def catch_polling_app catch_polling_assignments split: sum.splits if_splits)

lemma start_Some:
  assumes "start verify w a s = Some r"
  shows "lastProcessedBlock s < height r
       \<and> poll verify w a s =
           \<lparr>app_after = finish r s,
            trace = performed r @ [Assign_lastProcessedBlock (height r)],
            settled = Fulfilled\<rparr>"
  using assms
  by (auto simp: start_def poll_def finish_def Let_def split: sum.splits if_splits)

lemma trajectory_head:
  "\<exists>rest. trajectory verify a xs L = lastProcessedBlock (app_now L) # rest"
  by (cases xs) simp_all

lemma in_turn_sorted:
  "awaiting L = [] \<Longrightarrow> sorted (trajectory verify a (in_turn ws) L)"
proof (induction ws arbitrary: L)
  case Nil
  then show ?case by simp
next
  case (Cons w ws)
  show ?case
  proof (cases "start verify w a (app_now L)")
    case None
    then have "act verify a (Settle 0) (act verify a (Fire 0 w) L) = L"
      using Cons.prems by simp
    moreover obtain rest where rest: "trajectory verify a (in_turn ws) L
        = lastProcessedBlock (app_now L) # rest"
      using trajectory_head by blast
    moreover have "sorted (trajectory verify a (in_turn ws) L)"
      by (rule Cons.IH [OF Cons.prems])
    ultimately show ?thesis using None by simp
  next
    case (Some r)
    let ?L2 = "\<lparr>app_now = finish r (app_now L), awaiting = []\<rparr>"
    have two: "act verify a (Settle 0) (act verify a (Fire 0 w) L) = ?L2"
      using Some Cons.prems by simp
    have one: "app_now (act verify a (Fire 0 w) L) = app_now L"
      using Some by simp
    obtain rest where rest: "trajectory verify a (in_turn ws) ?L2
        = lastProcessedBlock (app_now ?L2) # rest"
      using trajectory_head by blast
    have srt: "sorted (trajectory verify a (in_turn ws) ?L2)"
      by (rule Cons.IH) simp
    have up: "lastProcessedBlock (app_now L) \<le> lastProcessedBlock (app_now ?L2)"
      using start_Some [OF Some] by (simp add: finish_def)
    have "trajectory verify a (in_turn (w # ws)) L =
        lastProcessedBlock (app_now L) # lastProcessedBlock (app_now L)
        # trajectory verify a (in_turn ws) ?L2"
      using one two by simp
    with rest srt up show ?thesis by auto
  qed
qed

text \<open>
  Claim C1, as stated, fails where callbacks overlap: a callback started at block 105
  that is still handling its events when the next one, started at block 110, has
  assigned 110, assigns 105 at its end. The cursor then moves from 110 back to 105.
\<close>

theorem overlapping_ticks_regress:
  "trajectory verifyClaimWithAI agent overlap (idle app_100) = [100, 100, 100, 110, 105]
   \<and> \<not> sorted (trajectory verifyClaimWithAI agent overlap (idle app_100))"
  by code_simp

lemma handle_event_cases:
  "(\<not> owned a e \<longrightarrow>
      handle_event verify w a e =
        [Console (New_claim_detected (bountyId e) (claim_id e)),
         Console (Skipping_claim (bountyId e))])
   \<and> (owned a e \<and> bounties w (bountyId e) = Inl err \<longrightarrow>
      handle_event verify w a e =
        [Console (New_claim_detected (bountyId e) (claim_id e)),
         Call_bounties (bountyId e),
         Console (Error_processing_claim err)])
   \<and> (owned a e \<and> bounties w (bountyId e) = Inr b
        \<and> \<not> verify w (bounty_name b) (bounty_description b) (claim_id e) \<longrightarrow>
      handle_event verify w a e =
        [Console (New_claim_detected (bountyId e) (claim_id e)),
         Call_bounties (bountyId e),
         Call_verifyClaimWithAI (bounty_name b) (bounty_description b) (claim_id e),
         Console (Failed_verification (claim_id e))])
   \<and> (owned a e \<and> bounties w (bountyId e) = Inr b
        \<and> verify w (bounty_name b) (bounty_description b) (claim_id e)
        \<and> acceptClaim w (bountyId e) (claim_id e) = Inl err \<longrightarrow>
      handle_event verify w a e =
        [Console (New_claim_detected (bountyId e) (claim_id e)),
         Call_bounties (bountyId e),
         Call_verifyClaimWithAI (bounty_name b) (bounty_description b) (claim_id e),
         Console (Verified_accepting (claim_id e)),
         Call_acceptClaim (bountyId e) (claim_id e),
         Console (Error_accepting_claim err)])
   \<and> (owned a e \<and> bounties w (bountyId e) = Inr b
        \<and> verify w (bounty_name b) (bounty_description b) (claim_id e)
        \<and> acceptClaim w (bountyId e) (claim_id e) = Inr () \<longrightarrow>
      handle_event verify w a e =
        [Console (New_claim_detected (bountyId e) (claim_id e)),
         Call_bounties (bountyId e),
         Call_verifyClaimWithAI (bounty_name b) (bounty_description b) (claim_id e),
         Console (Verified_accepting (claim_id e)),
         Call_acceptClaim (bountyId e) (claim_id e),
         Console (Accepted_successfully (claim_id e))])"
  by (simp add: owned_def handle_event_def)

text \<open>
  Claim C1, amended. Over callbacks that do not overlap (each started after the one
  before has settled) \<open>lastProcessedBlock\<close> never decreases. Every callback, overlapping
  or not, assigns it at most once: the height it read at its start, which was above the
  cursor then, as its last effect, after the handling of every event of the range it
  fetched. The handling of an event is one of five traces: skipped; bounty lookup failed,
  caught and logged; verification failed; acceptance failed, caught and logged; accepted.
  When reading the height or fetching the range fails, nothing is assigned and the
  state is left as it was.
\<close>

theorem cursor_committed_after_batch:
  "sorted (trajectory verify a (in_turn ws) (idle s))
   \<and> sorted (map lastProcessedBlock (s # polls verify ws a s))
   \<and> lastProcessedBlock s \<le> lastProcessedBlock (app_after (poll verify w a s))
   \<and> length (assignments (trace (poll verify w a s))) \<le> 1
   \<and> (assignments (trace (poll verify w a s)) \<noteq> []
        \<or> lastProcessedBlock (app_after (poll verify w a s)) \<noteq> lastProcessedBlock s
      \<longrightarrow> (\<exists>latest events.
             getBlockNumber w = Inr latest
           \<and> queryFilter_ClaimCreated w (lastProcessedBlock s + 1) latest = Inr events
           \<and> app_after (poll verify w a s) = s\<lparr>lastProcessedBlock := latest\<rparr>
           \<and> settled (poll verify w a s) = Fulfilled
           \<and> trace (poll verify w a s) =
               [Call_getBlockNumber,
                Console (Checking_for_claims (lastProcessedBlock s + 1) latest),
                Call_queryFilter (lastProcessedBlock s + 1) latest]
               @ concat (map (handle_event verify w a) events)
               @ [Assign_lastProcessedBlock latest]))
   \<and> ((\<exists>e. getBlockNumber w = Inl e)
        \<or> (\<exists>latest e. getBlockNumber w = Inr latest
              \<and> queryFilter_ClaimCreated w (lastProcessedBlock s + 1) latest = Inl e)
      \<longrightarrow> app_after (poll verify w a s) = s
          \<and> assignments (trace (poll verify w a s)) = [])
   \<and> (\<not> owned a e \<longrightarrow>
      handle_event verify w a e =
        [Console (New_claim_detected (bountyId e) (claim_id e)),
         Console (Skipping_claim (bountyId e))])
   \<and> (owned a e \<and> bounties w (bountyId e) = Inl err \<longrightarrow>
      handle_event verify w a e =
        [Console (New_claim_detected (bountyId e) (claim_id e)),
         Call_bounties (bountyId e),
         Console (Error_processing_claim err)])
   \<and> (owned a e \<and> bounties w (bountyId e) = Inr b
        \<and> \<not> verify w (bounty_name b) (bounty_description b) (claim_id e) \<longrightarrow>
      handle_event verify w a e =
        [Console (New_claim_detected (bountyId e) (claim_id e)),
         Call_bounties (bountyId e),
         Call_verifyClaimWithAI (bounty_name b) (bounty_description b) (claim_id e),
         Console (Failed_verification (claim_id e))])
   \<and> (owned a e \<and> bounties w (bountyId e) = Inr b
        \<and> verify w (bounty_name b) (bounty_description b) (claim_id e)
        \<and> acceptClaim w (bountyId e) (claim_id e) = Inl err \<longrightarrow>
      handle_event verify w a e =
        [Console (New_claim_detected (bountyId e) (claim_id e)),
         Call_bounties (bountyId e),
         Call_verifyClaimWithAI (bounty_name b) (bounty_description b) (claim_id e),
         Console (Verified_accepting (claim_id e)),
         Call_acceptClaim (bountyId e) (claim_id e),
         Console (Error_accepting_claim err)])
   \<and> (owned a e \<and> bounties w (bountyId e) = Inr b
        \<and> verify w (bounty_name b) (bounty_description b) (claim_id e)
        \<and> acceptClaim w (bountyId e) (claim_id e) = Inr () \<longrightarrow>
      handle_event verify w a e =
        [Console (New_claim_detected (bountyId e) (claim_id e)),
         Call_bounties (bountyId e),
         Call_verifyClaimWithAI (bounty_name b) (bounty_description b) (claim_id e),
         Console (Verified_accepting (claim_id e)),
         Call_acceptClaim (bountyId e) (claim_id e),
         Console (Accepted_successfully (claim_id e))])
   \<and> (start verify w a s = None \<longrightarrow>
        app_after (poll verify w a s) = s \<and> assignments (trace (poll verify w a s)) = [])
   \<and> (start verify w a s = Some r \<longrightarrow>
        lastProcessedBlock s < height r
        \<and> poll verify w a s =
            \<lparr>app_after = finish r s,
             trace = performed r @ [Assign_lastProcessedBlock (height r)],
             settled = Fulfilled\<rparr>)"
proof -
  have c0: "sorted (trajectory verify a (in_turn ws) (idle s))"
    by (rule in_turn_sorted) (simp add: idle_def)
  have c1: "lastProcessedBlock s \<le> lastProcessedBlock (app_after (poll verify w a s))"
    by (rule poll_monotone)
  have c2: "sorted (map lastProcessedBlock (s # polls verify ws a s))"
    by (rule polls_sorted)
  have c3: "length (assignments (trace (poll verify w a s))) \<le> 1"
    by (simp add: poll_assignments)
  have c4: "assignments (trace (poll verify w a s)) \<noteq> []
        \<or> lastProcessedBlock (app_after (poll verify w a s)) \<noteq> lastProcessedBlock s
      \<longrightarrow> (\<exists>latest events.
             getBlockNumber w = Inr latest
           \<and> queryFilter_ClaimCreated w (lastProcessedBlock s + 1) latest = Inr events
           \<and> app_after (poll verify w a s) = s\<lparr>lastProcessedBlock := latest\<rparr>
           \<and> settled (poll verify w a s) = Fulfilled
           \<and> trace (poll verify w a s) =
               [Call_getBlockNumber,
                Console (Checking_for_claims (lastProcessedBlock s + 1) latest),
                Call_queryFilter (lastProcessedBlock s + 1) latest]
               @ concat (map (handle_event verify w a) events)
               @ [Assign_lastProcessedBlock latest])"
    using poll_cases [of w verify a s]
    by (auto simp: catch_polling_app catch_polling_assignments handle_events_concat)
  have c5: "(\<exists>e. getBlockNumber w = Inl e)
        \<or> (\<exists>latest e. getBlockNumber w = Inr latest
              \<and> queryFilter_ClaimCreated w (lastProcessedBlock s + 1) latest = Inl e)
      \<longrightarrow> app_after (poll verify w a s) = s
          \<and> assignments (trace (poll verify w a s)) = []"
    using poll_cases [of w verify a s]
    by (auto simp: catch_polling_app catch_polling_assignments)
  note k = handle_event_cases [of a e verify w err b]
  note k1 = k [THEN conjunct1]
  note k2 = k [THEN conjunct2, THEN conjunct1]
  note k3 = k [THEN conjunct2, THEN conjunct2, THEN conjunct1]
  note k4 = k [THEN conjunct2, THEN conjunct2, THEN conjunct2, THEN conjunct1]
  note k5 = k [THEN conjunct2, THEN conjunct2, THEN conjunct2, THEN conjunct2]
  have c7: "start verify w a s = None \<longrightarrow>
        app_after (poll verify w a s) = s \<and> assignments (trace (poll verify w a s)) = []"
    using start_None by blast
  have c8: "start verify w a s = Some r \<longrightarrow>
        lastProcessedBlock s < height r
        \<and> poll verify w a s =
            \<lparr>app_after = finish r s,
             trace = performed r @ [Assign_lastProcessedBlock (height r)],
             settled = Fulfilled\<rparr>"
    using start_Some by blast
  show ?thesis
    by (intro conjI c0 c2 c1 c3 c4 c5 k1 k2 k3 k4 k5 c7 c8)
qed

theorem cursor_committed_after_batch_witness:
  "app_after (poll verifyClaimWithAI world_faulty agent app_100)
     = app_100\<lparr>lastProcessedBlock := 105\<rparr>
   \<and> trace (poll verifyClaimWithAI world_faulty agent app_100) =
       [Call_getBlockNumber, Console (Checking_for_claims 101 105), Call_queryFilter 101 105,
        Console (New_claim_detected 4 9), Call_bounties 4,
        Console (Error_processing_claim (JsError (Some ''CALL_EXCEPTION'') ''no such bounty'')),
        Console (New_claim_detected 3 7), Call_bounties 3,
        Call_verifyClaimWithAI ''Top Hat Tea Time'' ''Tea'' 7,
        Console (Verified_accepting 7), Call_acceptClaim 3 7,
        Console (Error_accepting_claim reverted),
        Console (New_claim_detected 3 8), Console (Skipping_claim 3),
        Assign_lastProcessedBlock 105]
   \<and> handle_event verifyClaimWithAI world_no_score agent claim_7 =
       [Console (New_claim_detected 3 7), Call_bounties 3,
        Call_verifyClaimWithAI ''Top Hat Tea Time'' ''Tea'' 7,
        Console (Failed_verification 7)]
   \<and> handle_event verifyClaimWithAI world_105 agent claim_7 =
       [Console (New_claim_detected 3 7), Call_bounties 3,
        Call_verifyClaimWithAI ''Top Hat Tea Time'' ''Tea'' 7,
        Console (Verified_accepting 7), Call_acceptClaim 3 7,
        Console (Accepted_successfully 7)]
   \<and> app_after (poll verifyClaimWithAI world_down agent app_100) = app_100
   \<and> assignments (trace (poll verifyClaimWithAI world_down agent app_100)) = []
   \<and> poll verifyClaimWithAI world_110 agent app_100 =
       \<lparr>app_after = app_100\<lparr>lastProcessedBlock := 110\<rparr>,
        trace = [Call_getBlockNumber, Console (Checking_for_claims 101 110),
                 Call_queryFilter 101 110, Assign_lastProcessedBlock 110],
        settled = Fulfilled\<rparr>"
proof -
  let ?v = verifyClaimWithAI
  let ?b = "\<lparr>bounty_name = ''Top Hat Tea Time'', bounty_description = ''Tea''\<rparr>"
  let ?nb = "JsError (Some ''CALL_EXCEPTION'') ''no such bounty''"
  have o9: "owned agent claim_9" by code_simp
  have o7: "owned agent claim_7" by code_simp
  have o8: "\<not> owned agent claim_8" by code_simp
  have ids: "bountyId claim_9 = 4" "claim_id claim_9 = 9" "bountyId claim_7 = 3"
    "claim_id claim_7 = 7" "bountyId claim_8 = 3" "claim_id claim_8 = 8"
    by (simp_all add: claim_9_def claim_7_def claim_8_def)
  have b9: "bounties world_faulty (bountyId claim_9) = Inl ?nb"
    by (simp add: world_faulty_def world_105_def ids)
  have b7: "bounties world_faulty (bountyId claim_7) = Inr ?b"
    "bounties world_no_score (bountyId claim_7) = Inr ?b"
    "bounties world_105 (bountyId claim_7) = Inr ?b"
    by (simp_all add: world_faulty_def world_no_score_def world_105_def ids)
  have v7: "?v world_faulty (bounty_name ?b) (bounty_description ?b) (claim_id claim_7)"
    "?v world_105 (bounty_name ?b) (bounty_description ?b) (claim_id claim_7)"
    "\<not> ?v world_no_score (bounty_name ?b) (bounty_description ?b) (claim_id claim_7)"
    by code_simp+
  have a7: "acceptClaim world_faulty (bountyId claim_7) (claim_id claim_7) = Inl reverted"
    "acceptClaim world_105 (bountyId claim_7) (claim_id claim_7) = Inr ()"
    by (simp_all add: world_faulty_def world_105_def)
  have moved: "lastProcessedBlock (app_after (poll ?v world_faulty agent app_100))
               \<noteq> lastProcessedBlock app_100"
    by code_simp
  have down: "\<exists>e. getBlockNumber world_down = Inl e"
    by (simp add: world_down_def)
  have st: "start ?v world_110 agent app_100 =
      Some \<lparr>height = 110,
            performed = [Call_getBlockNumber, Console (Checking_for_claims 101 110),
                         Call_queryFilter 101 110]\<rparr>"
    by (simp add: start_def world_110_def app_100_def)
  note t9 = cursor_committed_after_batch
    [where verify = ?v and w = world_faulty and a = agent and s = app_100 and e = claim_9
       and err = ?nb and ws = "[]"]
  note t7 = cursor_committed_after_batch
    [where verify = ?v and w = world_faulty and a = agent and s = app_100 and e = claim_7
       and err = reverted and b = ?b and ws = "[]"]
  note t8 = cursor_committed_after_batch
    [where verify = ?v and w = world_faulty and a = agent and s = app_100 and e = claim_8
       and ws = "[]"]
  note tn = cursor_committed_after_batch
    [where verify = ?v and w = world_no_score and a = agent and s = app_100 and e = claim_7
       and b = ?b and ws = "[]"]
  note tk = cursor_committed_after_batch
    [where verify = ?v and w = world_105 and a = agent and s = app_100 and e = claim_7
       and b = ?b and ws = "[]"]
  note td = cursor_committed_after_batch
    [where verify = ?v and w = world_down and a = agent and s = app_100 and ws = "[]"]
  note tl = cursor_committed_after_batch
    [where verify = ?v and w = world_110 and a = agent and s = app_100 and ws = "[]"
       and r = "\<lparr>height = 110,
            performed = [Call_getBlockNumber, Console (Checking_for_claims 101 110),
                         Call_queryFilter 101 110]\<rparr>"]
  have e9: "handle_event ?v world_faulty agent claim_9 =
      [Console (New_claim_detected 4 9), Call_bounties 4, Console (Error_processing_claim ?nb)]"
    using t9 [THEN conjunct2, THEN conjunct2, THEN conjunct2, THEN conjunct2, THEN conjunct2, THEN conjunct2, THEN conjunct2, THEN conjunct1] o9 b9 ids by simp
  have e7: "handle_event ?v world_faulty agent claim_7 =
      [Console (New_claim_detected 3 7), Call_bounties 3,
       Call_verifyClaimWithAI ''Top Hat Tea Time'' ''Tea'' 7,
       Console (Verified_accepting 7), Call_acceptClaim 3 7,
       Console (Error_accepting_claim reverted)]"
    using t7 [THEN conjunct2, THEN conjunct2, THEN conjunct2, THEN conjunct2, THEN conjunct2, THEN conjunct2, THEN conjunct2, THEN conjunct2, THEN conjunct2, THEN conjunct1] o7 b7(1) v7(1) a7(1) ids by simp
  have e8: "handle_event ?v world_faulty agent claim_8 =
      [Console (New_claim_detected 3 8), Console (Skipping_claim 3)]"
    using t8 [THEN conjunct2, THEN conjunct2, THEN conjunct2, THEN conjunct2, THEN conjunct2, THEN conjunct2, THEN conjunct1] o8 ids by simp
  have en: "handle_event ?v world_no_score agent claim_7 =
       [Console (New_claim_detected 3 7), Call_bounties 3,
        Call_verifyClaimWithAI ''Top Hat Tea Time'' ''Tea'' 7,
        Console (Failed_verification 7)]"
    using tn [THEN conjunct2, THEN conjunct2, THEN conjunct2, THEN conjunct2, THEN conjunct2, THEN conjunct2, THEN conjunct2, THEN conjunct2, THEN conjunct1] o7 b7(2) v7(3) ids by simp
  have ek: "handle_event ?v world_105 agent claim_7 =
       [Console (New_claim_detected 3 7), Call_bounties 3,
        Call_verifyClaimWithAI ''Top Hat Tea Time'' ''Tea'' 7,
        Console (Verified_accepting 7), Call_acceptClaim 3 7,
        Console (Accepted_successfully 7)]"
    using tk [THEN conjunct2, THEN conjunct2, THEN conjunct2, THEN conjunct2, THEN conjunct2, THEN conjunct2, THEN conjunct2, THEN conjunct2, THEN conjunct2, THEN conjunct2, THEN conjunct1] o7 b7(3) v7(2) a7(2) ids by simp
  from t9 [THEN conjunct2, THEN conjunct2, THEN conjunct2, THEN conjunct2, THEN conjunct1] moved obtain latest events where
    g: "getBlockNumber world_faulty = Inr latest"
    and q: "queryFilter_ClaimCreated world_faulty (lastProcessedBlock app_100 + 1) latest
              = Inr events"
    and af: "app_after (poll ?v world_faulty agent app_100)
              = app_100\<lparr>lastProcessedBlock := latest\<rparr>"
    and tr: "trace (poll ?v world_faulty agent app_100) =
               [Call_getBlockNumber,
                Console (Checking_for_claims (lastProcessedBlock app_100 + 1) latest),
                Call_queryFilter (lastProcessedBlock app_100 + 1) latest]
               @ concat (map (handle_event ?v world_faulty agent) events)
               @ [Assign_lastProcessedBlock latest]"
    by blast
  from g have l: "latest = 105" by (simp add: world_faulty_def world_105_def)
  from q l have ev: "events = [claim_9, claim_7, claim_8]"
    by (simp add: world_faulty_def app_100_def)
  have c100: "lastProcessedBlock app_100 = 100" by (simp add: app_100_def)
  have 1: "app_after (poll ?v world_faulty agent app_100) = app_100\<lparr>lastProcessedBlock := 105\<rparr>"
    using af l by simp
  have 2: "trace (poll ?v world_faulty agent app_100) =
       [Call_getBlockNumber, Console (Checking_for_claims 101 105), Call_queryFilter 101 105,
        Console (New_claim_detected 4 9), Call_bounties 4,
        Console (Error_processing_claim ?nb),
        Console (New_claim_detected 3 7), Call_bounties 3,
        Call_verifyClaimWithAI ''Top Hat Tea Time'' ''Tea'' 7,
        Console (Verified_accepting 7), Call_acceptClaim 3 7,
        Console (Error_accepting_claim reverted),
        Console (New_claim_detected 3 8), Console (Skipping_claim 3),
        Assign_lastProcessedBlock 105]"
    by (simp add: tr l ev c100 e9 e7 e8)
  have 3: "app_after (poll ?v world_down agent app_100) = app_100
     \<and> assignments (trace (poll ?v world_down agent app_100)) = []"
    using td [THEN conjunct2, THEN conjunct2, THEN conjunct2, THEN conjunct2, THEN conjunct2, THEN conjunct1] down by blast
  have 4: "poll ?v world_110 agent app_100 =
       \<lparr>app_after = app_100\<lparr>lastProcessedBlock := 110\<rparr>,
        trace = [Call_getBlockNumber, Console (Checking_for_claims 101 110),
                 Call_queryFilter 101 110, Assign_lastProcessedBlock 110],
        settled = Fulfilled\<rparr>"
    using tl [THEN conjunct2, THEN conjunct2, THEN conjunct2, THEN conjunct2, THEN conjunct2, THEN conjunct2, THEN conjunct2, THEN conjunct2, THEN conjunct2, THEN conjunct2, THEN conjunct2, THEN conjunct2] st by (simp add: finish_def app_100_def)
  show ?thesis
    by (intro conjI 1 2 en ek 3 [THEN conjunct1] 3 [THEN conjunct2] 4)
qed

lemma handle_event_owned:
  "owned a e \<longleftrightarrow> Call_bounties (bountyId e) \<in> set (handle_event verify w a e)"
  by (auto simp: owned_def handle_event_def split: sum.splits)

lemma handle_event_skipped:
  "\<not> owned a e \<Longrightarrow>
   handle_event verify w a e =
     [Console (New_claim_detected (bountyId e) (claim_id e)), Console (Skipping_claim (bountyId e))]"
  by (simp add: owned_def handle_event_def)

lemma poll_processing:
  assumes "getBlockNumber w = Inr latest" and "lastProcessedBlock s < latest"
    and "queryFilter_ClaimCreated w (lastProcessedBlock s + 1) latest = Inr events"
  shows "poll verify w a s =
           \<lparr>app_after = s\<lparr>lastProcessedBlock := latest\<rparr>,
            trace = [Call_getBlockNumber,
                     Console (Checking_for_claims (lastProcessedBlock s + 1) latest),
                     Call_queryFilter (lastProcessedBlock s + 1) latest]
                    @ concat (map (handle_event verify w a) events)
                    @ [Assign_lastProcessedBlock latest],
            settled = Fulfilled\<rparr>"
  using assms by (simp add: poll_def Let_def handle_events_concat)

text \<open>
  Claim C4. An event of the fetched range is handed to the pipeline (whose first call
  is \<open>contract.bounties\<close>) exactly when its \<open>bountyIssuer\<close> equals the agent's address
  after both are put in lower case; an event that is not owned leaves two console lines
  and nothing else. The trace of a run is the fetch, the handling of each event in the
  order fetched, and the assignment. Of two events on the same bounty with one owned
  and one not, only the owned one reaches the pipeline.
\<close>

theorem ownership_filter:
  "(owned a e \<longleftrightarrow> toLowerCase (bountyIssuer e) = toLowerCase a)
   \<and> (owned a e \<longleftrightarrow> Call_bounties (bountyId e) \<in> set (handle_event verify w a e))
   \<and> (owned a e \<or>
        handle_event verify w a e =
          [Console (New_claim_detected (bountyId e) (claim_id e)),
           Console (Skipping_claim (bountyId e))])
   \<and> (getBlockNumber w = Inr latest \<and> lastProcessedBlock s < latest
        \<and> queryFilter_ClaimCreated w (lastProcessedBlock s + 1) latest = Inr events
      \<longrightarrow> trace (poll verify w a s) =
            [Call_getBlockNumber,
             Console (Checking_for_claims (lastProcessedBlock s + 1) latest),
             Call_queryFilter (lastProcessedBlock s + 1) latest]
            @ concat (map (handle_event verify w a) events)
            @ [Assign_lastProcessedBlock latest]
          \<and> filter (\<lambda>e. Call_bounties (bountyId e) \<in> set (handle_event verify w a e)) events
              = filter (owned a) events)
   \<and> (owned a e1 \<and> \<not> owned a e2 \<and> bountyId e1 = bountyId e2
      \<longrightarrow> handle_events verify w a [e1, e2] =
            handle_event verify w a e1
            @ [Console (New_claim_detected (bountyId e2) (claim_id e2)),
               Console (Skipping_claim (bountyId e2))])"
proof -
  have c1: "owned a e \<longleftrightarrow> toLowerCase (bountyIssuer e) = toLowerCase a"
    by (simp add: owned_def)
  have c2: "owned a e \<longleftrightarrow> Call_bounties (bountyId e) \<in> set (handle_event verify w a e)"
    by (rule handle_event_owned)
  have c3: "owned a e \<or>
        handle_event verify w a e =
          [Console (New_claim_detected (bountyId e) (claim_id e)),
           Console (Skipping_claim (bountyId e))]"
    using handle_event_skipped [of a e verify w] by blast
  have same: "filter (\<lambda>e. Call_bounties (bountyId e) \<in> set (handle_event verify w a e)) events
              = filter (owned a) events"
    by (rule filter_cong) (simp_all add: handle_event_owned [symmetric])
  have c4: "getBlockNumber w = Inr latest \<and> lastProcessedBlock s < latest
        \<and> queryFilter_ClaimCreated w (lastProcessedBlock s + 1) latest = Inr events
      \<longrightarrow> trace (poll verify w a s) =
            [Call_getBlockNumber,
             Console (Checking_for_claims (lastProcessedBlock s + 1) latest),
             Call_queryFilter (lastProcessedBlock s + 1) latest]
            @ concat (map (handle_event verify w a) events)
            @ [Assign_lastProcessedBlock latest]
          \<and> filter (\<lambda>e. Call_bounties (bountyId e) \<in> set (handle_event verify w a e)) events
              = filter (owned a) events"
    using same by (simp add: poll_processing)
  have c5: "owned a e1 \<and> \<not> owned a e2 \<and> bountyId e1 = bountyId e2
      \<longrightarrow> handle_events verify w a [e1, e2] =
            handle_event verify w a e1
            @ [Console (New_claim_detected (bountyId e2) (claim_id e2)),
               Console (Skipping_claim (bountyId e2))]"
    by (simp add: handle_event_skipped)
  from c1 c2 c3 c4 c5 show ?thesis by blast
qed

theorem ownership_filter_witness:
  "Call_bounties (bountyId claim_7) \<in> set (handle_event verifyClaimWithAI world_105 agent claim_7)
   \<and> handle_event verifyClaimWithAI world_105 agent claim_8 =
       [Console (New_claim_detected 3 8), Console (Skipping_claim 3)]
   \<and> filter (\<lambda>e. Call_bounties (bountyId e)
                   \<in> set (handle_event verifyClaimWithAI world_105 agent e)) [claim_7, claim_8]
       = [claim_7]
   \<and> handle_events verifyClaimWithAI world_105 agent [claim_7, claim_8] =
       handle_event verifyClaimWithAI world_105 agent claim_7
       @ [Console (New_claim_detected 3 8), Console (Skipping_claim 3)]"
proof -
  have o7: "owned agent claim_7" by code_simp
  have o8: "\<not> owned agent claim_8" by code_simp
  have b: "bountyId claim_7 = bountyId claim_8" by (simp add: claim_7_def claim_8_def)
  have f: "bountyId claim_8 = 3" "claim_id claim_8 = 8" by (simp_all add: claim_8_def)
  have g: "getBlockNumber world_105 = Inr 105
        \<and> lastProcessedBlock app_100 < 105
        \<and> queryFilter_ClaimCreated world_105 (lastProcessedBlock app_100 + 1) 105
            = Inr [claim_7, claim_8]"
    by (simp add: world_105_def app_100_def)
  note t7 = ownership_filter
    [where a = agent and e = claim_7 and verify = verifyClaimWithAI and w = world_105
       and s = app_100 and latest = 105 and events = "[claim_7, claim_8]"
       and ?e1.0 = claim_7 and ?e2.0 = claim_8]
  note t8 = ownership_filter
    [where a = agent and e = claim_8 and verify = verifyClaimWithAI and w = world_105
       and s = app_100 and latest = 105 and events = "[claim_7, claim_8]"
       and ?e1.0 = claim_7 and ?e2.0 = claim_8]
  have 1: "Call_bounties (bountyId claim_7)
             \<in> set (handle_event verifyClaimWithAI world_105 agent claim_7)"
    using t7 o7 by blast
  have 2: "handle_event verifyClaimWithAI world_105 agent claim_8 =
       [Console (New_claim_detected 3 8), Console (Skipping_claim 3)]"
    using t8 o8 f by simp
  have 3: "filter (\<lambda>e. Call_bounties (bountyId e)
                   \<in> set (handle_event verifyClaimWithAI world_105 agent e)) [claim_7, claim_8]
       = filter (owned agent) [claim_7, claim_8]"
    using t7 g by blast
  have 4: "handle_events verifyClaimWithAI world_105 agent [claim_7, claim_8] =
       handle_event verifyClaimWithAI world_105 agent claim_7
       @ [Console (New_claim_detected 3 8), Console (Skipping_claim 3)]"
    using t7 o7 o8 b f by simp
  from 1 2 3 4 o7 o8 show ?thesis by simp
qed

text \<open>
  Claim C5. A run that reads a height not above the cursor does nothing but read it: no
  event fetch, no call of the pipeline, no settlement attempt, no assignment, and the
  state is unchanged.
\<close>

theorem idle_tick:
  assumes "getBlockNumber w = Inr latest" and "latest \<le> lastProcessedBlock s"
  shows "poll verify w a s = \<lparr>app_after = s, trace = [Call_getBlockNumber], settled = Fulfilled\<rparr>
       \<and> settlements (trace (poll verify w a s)) = []
       \<and> assignments (trace (poll verify w a s)) = []
       \<and> (\<forall>x y. Call_queryFilter x y \<notin> set (trace (poll verify w a s)))
       \<and> (\<forall>b. Call_bounties b \<notin> set (trace (poll verify w a s)))
       \<and> (\<forall>t d c. Call_verifyClaimWithAI t d c \<notin> set (trace (poll verify w a s)))"
  using assms by (simp add: poll_def)

theorem idle_tick_witness:
  "poll verifyClaimWithAI world_105 agent (app_100\<lparr>lastProcessedBlock := 105\<rparr>)
     = \<lparr>app_after = app_100\<lparr>lastProcessedBlock := 105\<rparr>, trace = [Call_getBlockNumber],
        settled = Fulfilled\<rparr>
   \<and> settlements (trace (poll verifyClaimWithAI world_105 agent
                           (app_100\<lparr>lastProcessedBlock := 210\<rparr>))) = []"
proof -
  have g: "getBlockNumber world_105 = Inr 105" by (simp add: world_105_def)
  have a: "105 \<le> lastProcessedBlock (app_100\<lparr>lastProcessedBlock := 105\<rparr>)" by simp
  have b: "105 \<le> lastProcessedBlock (app_100\<lparr>lastProcessedBlock := 210\<rparr>)" by simp
  from idle_tick [OF g a, of verifyClaimWithAI agent]
       idle_tick [OF g b, of verifyClaimWithAI agent]
  show ?thesis by simp
qed

section \<open>Fallback content\<close>

lemma length_fallbackBounties: "length fallbackBounties = 10"
  by (simp add: fallbackBounties_def)

lemma distinct_titles: "distinct (map title fallbackBounties)"
  by (simp add: fallbackBounties_def)

lemma floor_index:
  assumes "unit_interval u" and "0 < n"
  shows "0 \<le> \<lfloor>u * real n\<rfloor> \<and> \<lfloor>u * real n\<rfloor> < int n"
proof -
  from assms have "0 \<le> u * real n" by (simp add: unit_interval_def)
  then have lo: "0 \<le> \<lfloor>u * real n\<rfloor>" by simp
  from assms have "u * real n < real n" by (simp add: unit_interval_def)
  then have hi: "\<lfloor>u * real n\<rfloor> < int n" by (simp add: floor_less_iff)
  from lo hi show ?thesis by simp
qed

lemma every_index_is_drawn:
  assumes "k < n"
  shows "\<exists>u. unit_interval u \<and> \<lfloor>u * real n\<rfloor> = int k"
proof -
  from assms have n: "0 < real n" by simp
  have "real k / real n * real n = real k" using n by simp
  then have "\<lfloor>real k / real n * real n\<rfloor> = int k" by simp
  moreover have "unit_interval (real k / real n)"
    using assms n by (simp add: unit_interval_def)
  ultimately show ?thesis by blast
qed

lemma fallback_unused:
  assumes u: "unit_interval u"
    and ne: "filter (\<lambda>i. i \<notin> usedFallbackIndices s) [0..<length fallbackBounties] \<noteq> []"
  shows "\<exists>i. i < length fallbackBounties \<and> i \<notin> usedFallbackIndices s
           \<and> fallback u s = (s\<lparr>usedFallbackIndices := insert i (usedFallbackIndices s)\<rparr>,
                              Some (fallbackBounties ! i))"
proof -
  define av where "av = filter (\<lambda>i. i \<notin> usedFallbackIndices s) [0..<length fallbackBounties]"
  from ne have pos: "0 < length av" by (simp add: av_def)
  note k = floor_index [OF u pos]
  then have "nat \<lfloor>u * real (length av)\<rfloor> < length av" by linarith
  then have mem: "av ! nat \<lfloor>u * real (length av)\<rfloor> \<in> set av" by simp
  then have i: "av ! nat \<lfloor>u * real (length av)\<rfloor> < length fallbackBounties"
    "av ! nat \<lfloor>u * real (length av)\<rfloor> \<notin> usedFallbackIndices s"
    by (auto simp: av_def)
  have "fallback u s =
     (s\<lparr>usedFallbackIndices := insert (av ! nat \<lfloor>u * real (length av)\<rfloor>) (usedFallbackIndices s)\<rparr>,
      Some (fallbackBounties ! (av ! nat \<lfloor>u * real (length av)\<rfloor>)))"
    using ne k unfolding fallback_def Let_def av_def [symmetric] by simp
  with i show ?thesis by blast
qed

lemma fallback_exhausted:
  assumes u: "unit_interval u"
    and em: "filter (\<lambda>i. i \<notin> usedFallbackIndices s) [0..<length fallbackBounties] = []"
  shows "\<exists>i. i < length fallbackBounties
           \<and> fallback u s = (s\<lparr>usedFallbackIndices := {i}\<rparr>, Some (fallbackBounties ! i))"
proof -
  define av where "av = [0..<length fallbackBounties]"
  have pos: "0 < length av" by (simp add: av_def length_fallbackBounties)
  note k = floor_index [OF u pos]
  then have "nat \<lfloor>u * real (length av)\<rfloor> < length av" by linarith
  then have mem: "av ! nat \<lfloor>u * real (length av)\<rfloor> \<in> set av" by simp
  then have i: "av ! nat \<lfloor>u * real (length av)\<rfloor> < length fallbackBounties"
    by (auto simp: av_def)
  have "fallback u s = (s\<lparr>usedFallbackIndices := {av ! nat \<lfloor>u * real (length av)\<rfloor>}\<rparr>,
                        Some (fallbackBounties ! (av ! nat \<lfloor>u * real (length av)\<rfloor>)))"
    using em k unfolding fallback_def Let_def av_def [symmetric] by simp
  with i show ?thesis by blast
qed

lemma generation_fails_fallback:
  "generation_fails w \<Longrightarrow> generateBountyIdea w s = fallback (Math_random w) s"
  unfolding generation_fails_def generateBountyIdea_def
  by (erule allE [of _ "recentTitles s"]) (auto split: sum.splits option.splits prod.splits)


lemma generate_all_fresh:
  assumes "\<forall>w \<in> set ws. generation_fails w \<and> unit_interval (Math_random w)"
    and "usedFallbackIndices s \<subseteq> {0..<10}"
    and "card (usedFallbackIndices s) + length ws \<le> 10"
  shows "\<exists>is. generate_all ws s = map (\<lambda>i. Some (fallbackBounties ! i)) is
            \<and> distinct is \<and> set is \<subseteq> {0..<10} - usedFallbackIndices s
            \<and> usedFallbackIndices (app_after_all ws s) = usedFallbackIndices s \<union> set is"
  using assms
proof (induction ws arbitrary: s)
  case Nil
  then show ?case by simp
next
  case (Cons w ws)
  have fin: "finite (usedFallbackIndices s)"
    using Cons.prems(2) by (rule finite_subset) simp
  have "card (usedFallbackIndices s) < card {0..<10::nat}"
    using Cons.prems(3) by simp
  then have "usedFallbackIndices s \<noteq> {0..<10}" by auto
  with Cons.prems(2) have "\<exists>j. j \<in> {0..<10} \<and> j \<notin> usedFallbackIndices s" by blast
  then obtain j where j: "j < 10" "j \<notin> usedFallbackIndices s" by auto
  then have ne: "filter (\<lambda>i. i \<notin> usedFallbackIndices s) [0..<length fallbackBounties] \<noteq> []"
    by (auto simp: length_fallbackBounties filter_empty_conv)
  from Cons.prems(1) have w: "generation_fails w" "unit_interval (Math_random w)" by simp_all
  from fallback_unused [OF w(2) ne] obtain i where
    i: "i < length fallbackBounties" "i \<notin> usedFallbackIndices s"
    and fb: "fallback (Math_random w) s =
        (s\<lparr>usedFallbackIndices := insert i (usedFallbackIndices s)\<rparr>, Some (fallbackBounties ! i))"
    by blast
  let ?s' = "s\<lparr>usedFallbackIndices := insert i (usedFallbackIndices s)\<rparr>"
  have gen: "generateBountyIdea w s = (?s', Some (fallbackBounties ! i))"
    using generation_fails_fallback [OF w(1)] fb by simp
  have p1: "\<forall>w \<in> set ws. generation_fails w \<and> unit_interval (Math_random w)"
    using Cons.prems(1) by simp
  have p2: "usedFallbackIndices ?s' \<subseteq> {0..<10}"
    using Cons.prems(2) i(1) by (simp add: length_fallbackBounties)
  have p3: "card (usedFallbackIndices ?s') + length ws \<le> 10"
    using Cons.prems(3) fin i(2) by simp
  from Cons.IH [OF p1 p2 p3] obtain js where
    js: "generate_all ws ?s' = map (\<lambda>i. Some (fallbackBounties ! i)) js"
      "distinct js" "set js \<subseteq> {0..<10} - usedFallbackIndices ?s'"
      "usedFallbackIndices (app_after_all ws ?s') = usedFallbackIndices ?s' \<union> set js"
    by blast
  have "generate_all (w # ws) s = map (\<lambda>i. Some (fallbackBounties ! i)) (i # js)"
    using gen js(1) by simp
  moreover have "distinct (i # js)" using js(2,3) by auto
  moreover have "set (i # js) \<subseteq> {0..<10} - usedFallbackIndices s"
    using js(3) i by (auto simp: length_fallbackBounties)
  moreover have "usedFallbackIndices (app_after_all (w # ws) s) = usedFallbackIndices s \<union> set (i # js)"
    using gen js(4) by auto
  ultimately show ?case by blast
qed

lemma length_generate_all: "length (generate_all ws s) = length ws"
  by (induction ws arbitrary: s) simp_all

lemma generate_all_append:
  "generate_all (ws @ vs) s = generate_all ws s @ generate_all vs (app_after_all ws s)"
  by (induction ws arbitrary: s) simp_all

lemma titles_inj: "inj_on (\<lambda>i. title (fallbackBounties ! i)) {0..<10}"
proof -
  have "inj_on (nth (map title fallbackBounties)) {0..<10}"
    by (rule inj_on_nth [OF distinct_titles]) (simp add: length_fallbackBounties)
  then show ?thesis
    by (auto simp: inj_on_def length_fallbackBounties)
qed

text \<open>
  Claim C9. Starting with no index used, ten calls of the content generator that all
  fall back (the size of the fallback list is ten) return ten entries of the list with
  pairwise distinct titles. The eleventh call finds every index used, clears the set,
  and still returns an entry of the list; the set then holds that one index.
\<close>

theorem fallback_rotation:
  assumes fresh: "usedFallbackIndices s = {}"
    and len: "length ws = length fallbackBounties"
    and fails: "\<forall>w \<in> set ws. generation_fails w \<and> unit_interval (Math_random w)"
    and next_fails: "generation_fails w'" "unit_interval (Math_random w')"
  shows "length fallbackBounties = 10
       \<and> set (generate_all ws s) \<subseteq> Some ` set fallbackBounties
       \<and> distinct (map (\<lambda>r. title (the r)) (generate_all ws s))
       \<and> generate_all (ws @ [w']) s =
           generate_all ws s @ [snd (generateBountyIdea w' (app_after_all ws s))]
       \<and> snd (generateBountyIdea w' (app_after_all ws s)) \<in> Some ` set fallbackBounties
       \<and> card (usedFallbackIndices (fst (generateBountyIdea w' (app_after_all ws s)))) = 1"
proof -
  have p2: "usedFallbackIndices s \<subseteq> {0..<10}" using fresh by simp
  have p3: "card (usedFallbackIndices s) + length ws \<le> 10"
    using fresh len by (simp add: length_fallbackBounties)
  from generate_all_fresh [OF fails p2 p3] obtain js where
    js: "generate_all ws s = map (\<lambda>i. Some (fallbackBounties ! i)) js"
      "distinct js" "set js \<subseteq> {0..<10} - usedFallbackIndices s"
      "usedFallbackIndices (app_after_all ws s) = usedFallbackIndices s \<union> set js"
    by blast
  have ljs: "length js = 10"
    using js(1) len length_fallbackBounties length_generate_all [of ws s] by simp
  have sub: "set js \<subseteq> {0..<10}" using js(3) by blast
  have c1: "set (generate_all ws s) \<subseteq> Some ` set fallbackBounties"
    using sub by (auto simp: js(1) length_fallbackBounties)
  have "inj_on (\<lambda>i. title (fallbackBounties ! i)) (set js)"
    using titles_inj sub by (rule inj_on_subset)
  then have "distinct (map (\<lambda>i. title (fallbackBounties ! i)) js)"
    using js(2) by (simp add: distinct_map)
  then have c2: "distinct (map (\<lambda>r. title (the r)) (generate_all ws s))"
    by (simp add: js(1) comp_def)
  have c3: "generate_all (ws @ [w']) s =
           generate_all ws s @ [snd (generateBountyIdea w' (app_after_all ws s))]"
    by (simp add: generate_all_append)
  have "card (set js) = card {0..<10::nat}"
    using js(2) ljs by (simp add: distinct_card)
  with sub have "set js = {0..<10}"
    by (simp add: card_subset_eq)
  then have full: "usedFallbackIndices (app_after_all ws s) = {0..<10}"
    using js(4) fresh by simp
  have em: "filter (\<lambda>i. i \<notin> usedFallbackIndices (app_after_all ws s))
              [0..<length fallbackBounties] = []"
    by (simp add: full length_fallbackBounties filter_empty_conv)
  from fallback_exhausted [OF next_fails(2) em] obtain i where
    i: "i < length fallbackBounties"
    and fb: "fallback (Math_random w') (app_after_all ws s) =
       ((app_after_all ws s)\<lparr>usedFallbackIndices := {i}\<rparr>, Some (fallbackBounties ! i))"
    by blast
  have gen: "generateBountyIdea w' (app_after_all ws s) =
       ((app_after_all ws s)\<lparr>usedFallbackIndices := {i}\<rparr>, Some (fallbackBounties ! i))"
    using generation_fails_fallback [OF next_fails(1)] fb by simp
  have c4: "snd (generateBountyIdea w' (app_after_all ws s)) \<in> Some ` set fallbackBounties"
    using i by (simp add: gen)
  have c5: "card (usedFallbackIndices (fst (generateBountyIdea w' (app_after_all ws s)))) = 1"
    by (simp add: gen)
  from length_fallbackBounties c1 c2 c3 c4 c5 show ?thesis by blast
qed

theorem fallback_rotation_witness:
  "distinct (map (\<lambda>r. title (the r)) (generate_all (replicate 10 issuance_offline) app_100))
   \<and> snd (generateBountyIdea issuance_offline
            (app_after_all (replicate 10 issuance_offline) app_100))
       \<in> Some ` set fallbackBounties"
proof -
  have f: "generation_fails issuance_offline"
    by (simp add: generation_fails_def issuance_offline_def)
  have u: "unit_interval (Math_random issuance_offline)"
    by (simp add: unit_interval_def issuance_offline_def)
  have a: "usedFallbackIndices app_100 = {}"
    by (simp add: app_100_def)
  have l: "length (replicate 10 issuance_offline) = length fallbackBounties"
    by (simp add: length_fallbackBounties)
  have every: "\<forall>w \<in> set (replicate 10 issuance_offline).
                 generation_fails w \<and> unit_interval (Math_random w)"
    using f u by simp
  from fallback_rotation [OF a l every f u] show ?thesis by blast
qed

section \<open>Bounty creation and the table\<close>

lemma generated_content:
  "generated w (recentTitles s) = Inr (Some t, Some d) \<Longrightarrow>
   generateBountyIdea w s =
     (db_insert t d None (time_of_generation w) s, Some \<lparr>title = t, description = d\<rparr>)"
  by (simp add: generateBountyIdea_def)

lemma fallback_db: "db_bounties (fst (fallback u s)) = db_bounties s
                    \<and> db_sequence (fst (fallback u s)) = db_sequence s
                    \<and> lastProcessedBlock (fst (fallback u s)) = lastProcessedBlock s"
  by (simp add: fallback_def Let_def)

lemma createBounty_receipt:
  assumes "generateBountyIdea w s = (s1, Some c)"
    and "createSoloBounty w (title c) (description c) = Inr tx"
    and "wait w tx = Inr rcpt"
    and "find (\<lambda>event. log_name event = ''BountyCreated'')
           (map the (filter (\<lambda>event. event \<noteq> None) (logs rcpt))) = Some ev"
  shows "createBounty w s =
           (db_insert (title c) (description c) (Some (toString (log_args_id ev)))
              (time_of_confirmation w) s1,
            Inr (toString (log_args_id ev)))"
  using assms by (simp add: createBounty_def Let_def)

lemma createBounty_polling:
  assumes "generateBountyIdea w s = (s1, Some c)"
    and "createSoloBounty w (title c) (description c) = Inr tx"
    and "wait w tx = Inr rcpt"
    and "find (\<lambda>event. log_name event = ''BountyCreated'')
           (map the (filter (\<lambda>event. event \<noteq> None) (logs rcpt))) = None"
    and "queryFilter_BountyCreated w (blockNumber rcpt) (blockNumber rcpt) = Inr events"
    and "find (\<lambda>event. event_transactionHash event = transactionHash rcpt) events = Some ev"
  shows "createBounty w s = (s1, Inr (toString (event_args_id ev)))"
  using assms by (simp add: createBounty_def Let_def)

lemma createBounty_cursor: "lastProcessedBlock (fst (createBounty w s)) = lastProcessedBlock s"
proof -
  have g: "lastProcessedBlock (fst (generateBountyIdea w s)) = lastProcessedBlock s"
    by (auto simp: generateBountyIdea_def db_insert_def fallback_db
             split: sum.splits option.splits prod.splits)
  obtain s1 r where gi: "generateBountyIdea w s = (s1, r)" by (cases "generateBountyIdea w s")
  with g have s1: "lastProcessedBlock s1 = lastProcessedBlock s" by simp
  show ?thesis
    by (simp add: createBounty_def gi s1 db_insert_def Let_def
             split: option.splits sum.splits)
qed

text \<open>
  Claim C10. A creation whose content came from the generative service and whose
  receipt carries the \<open>BountyCreated\<close> log leaves two new rows of the same title and
  description: the draft written by \<open>generateBountyIdea\<close> with no
  \<open>contract_bounty_id\<close>, then the row written by \<open>createBounty\<close> with the
  identifier. A creation that fell back to the local list leaves the second row only.
\<close>

theorem creation_rows:
  "(generated w (recentTitles s) = Inr (Some t, Some d)
     \<and> createSoloBounty w t d = Inr tx
     \<and> wait w tx = Inr rcpt
     \<and> find (\<lambda>event. log_name event = ''BountyCreated'')
           (map the (filter (\<lambda>event. event \<noteq> None) (logs rcpt))) = Some ev
    \<longrightarrow> createBounty w s =
          (s\<lparr>db_bounties := db_bounties s @
                [\<lparr>row_id = db_sequence s + 1, row_title = t, row_description = d,
                  contract_bounty_id = None, created_at = time_of_generation w\<rparr>,
                 \<lparr>row_id = db_sequence s + 2, row_title = t, row_description = d,
                  contract_bounty_id = Some (toString (log_args_id ev)),
                  created_at = time_of_confirmation w\<rparr>],
             db_sequence := db_sequence s + 2\<rparr>,
           Inr (toString (log_args_id ev))))
   \<and> (generation_fails w
     \<and> fallback (Math_random w) s = (s1, Some c)
     \<and> createSoloBounty w (title c) (description c) = Inr tx
     \<and> wait w tx = Inr rcpt
     \<and> find (\<lambda>event. log_name event = ''BountyCreated'')
           (map the (filter (\<lambda>event. event \<noteq> None) (logs rcpt))) = Some ev
    \<longrightarrow> createBounty w s =
          (s1\<lparr>db_bounties := db_bounties s @
                [\<lparr>row_id = db_sequence s + 1, row_title = title c,
                  row_description = description c,
                  contract_bounty_id = Some (toString (log_args_id ev)),
                  created_at = time_of_confirmation w\<rparr>],
              db_sequence := db_sequence s + 1\<rparr>,
           Inr (toString (log_args_id ev))))"
proof -
  have a: "generated w (recentTitles s) = Inr (Some t, Some d)
     \<and> createSoloBounty w t d = Inr tx
     \<and> wait w tx = Inr rcpt
     \<and> find (\<lambda>event. log_name event = ''BountyCreated'')
           (map the (filter (\<lambda>event. event \<noteq> None) (logs rcpt))) = Some ev
    \<longrightarrow> createBounty w s =
          (s\<lparr>db_bounties := db_bounties s @
                [\<lparr>row_id = db_sequence s + 1, row_title = t, row_description = d,
                  contract_bounty_id = None, created_at = time_of_generation w\<rparr>,
                 \<lparr>row_id = db_sequence s + 2, row_title = t, row_description = d,
                  contract_bounty_id = Some (toString (log_args_id ev)),
                  created_at = time_of_confirmation w\<rparr>],
             db_sequence := db_sequence s + 2\<rparr>,
           Inr (toString (log_args_id ev)))"
  proof
    assume h: "generated w (recentTitles s) = Inr (Some t, Some d)
     \<and> createSoloBounty w t d = Inr tx
     \<and> wait w tx = Inr rcpt
     \<and> find (\<lambda>event. log_name event = ''BountyCreated'')
           (map the (filter (\<lambda>event. event \<noteq> None) (logs rcpt))) = Some ev"
    then have g: "generateBountyIdea w s =
        (db_insert t d None (time_of_generation w) s, Some \<lparr>title = t, description = d\<rparr>)"
      by (simp add: generated_content)
    from h have c: "createSoloBounty w (title \<lparr>title = t, description = d\<rparr>)
                      (description \<lparr>title = t, description = d\<rparr>) = Inr tx"
      by simp
    from h have r: "wait w tx = Inr rcpt" by simp
    from h have f: "find (\<lambda>event. log_name event = ''BountyCreated'')
           (map the (filter (\<lambda>event. event \<noteq> None) (logs rcpt))) = Some ev" by simp
    show "createBounty w s =
          (s\<lparr>db_bounties := db_bounties s @
                [\<lparr>row_id = db_sequence s + 1, row_title = t, row_description = d,
                  contract_bounty_id = None, created_at = time_of_generation w\<rparr>,
                 \<lparr>row_id = db_sequence s + 2, row_title = t, row_description = d,
                  contract_bounty_id = Some (toString (log_args_id ev)),
                  created_at = time_of_confirmation w\<rparr>],
             db_sequence := db_sequence s + 2\<rparr>,
           Inr (toString (log_args_id ev)))"
      by (simp add: createBounty_receipt [OF g c r f] db_insert_def)
  qed
  have b: "generation_fails w
     \<and> fallback (Math_random w) s = (s1, Some c)
     \<and> createSoloBounty w (title c) (description c) = Inr tx
     \<and> wait w tx = Inr rcpt
     \<and> find (\<lambda>event. log_name event = ''BountyCreated'')
           (map the (filter (\<lambda>event. event \<noteq> None) (logs rcpt))) = Some ev
    \<longrightarrow> createBounty w s =
          (s1\<lparr>db_bounties := db_bounties s @
                [\<lparr>row_id = db_sequence s + 1, row_title = title c,
                  row_description = description c,
                  contract_bounty_id = Some (toString (log_args_id ev)),
                  created_at = time_of_confirmation w\<rparr>],
              db_sequence := db_sequence s + 1\<rparr>,
           Inr (toString (log_args_id ev)))"
  proof
    assume h: "generation_fails w
     \<and> fallback (Math_random w) s = (s1, Some c)
     \<and> createSoloBounty w (title c) (description c) = Inr tx
     \<and> wait w tx = Inr rcpt
     \<and> find (\<lambda>event. log_name event = ''BountyCreated'')
           (map the (filter (\<lambda>event. event \<noteq> None) (logs rcpt))) = Some ev"
    then have g: "generateBountyIdea w s = (s1, Some c)"
      by (simp add: generation_fails_fallback)
    from h have c: "createSoloBounty w (title c) (description c) = Inr tx" by simp
    from h have r: "wait w tx = Inr rcpt" by simp
    from h have f: "find (\<lambda>event. log_name event = ''BountyCreated'')
           (map the (filter (\<lambda>event. event \<noteq> None) (logs rcpt))) = Some ev" by simp
    from h have "fst (fallback (Math_random w) s) = s1" by simp
    with fallback_db [of "Math_random w" s]
    have d: "db_bounties s1 = db_bounties s" "db_sequence s1 = db_sequence s" by auto
    show "createBounty w s =
          (s1\<lparr>db_bounties := db_bounties s @
                [\<lparr>row_id = db_sequence s + 1, row_title = title c,
                  row_description = description c,
                  contract_bounty_id = Some (toString (log_args_id ev)),
                  created_at = time_of_confirmation w\<rparr>],
              db_sequence := db_sequence s + 1\<rparr>,
           Inr (toString (log_args_id ev)))"
      by (simp add: createBounty_receipt [OF g c r f] db_insert_def d)
  qed
  from a b show ?thesis by blast
qed

theorem creation_rows_witness:
  "createBounty issuance_receipt app_100 =
     (app_100\<lparr>db_bounties :=
                 [\<lparr>row_id = 1, row_title = ''Hat Day'', row_description = ''Wear a hat'',
                   contract_bounty_id = None, created_at = 1000\<rparr>,
                  \<lparr>row_id = 2, row_title = ''Hat Day'', row_description = ''Wear a hat'',
                   contract_bounty_id = Some (toString 42), created_at = 1002\<rparr>],
               db_sequence := 2\<rparr>,
      Inr (toString 42))
   \<and> createBounty issuance_offline app_100 =
     (app_100\<lparr>usedFallbackIndices := {0},
               db_bounties :=
                 [\<lparr>row_id = 1, row_title = title (fallbackBounties ! 0),
                   row_description = description (fallbackBounties ! 0),
                   contract_bounty_id = Some (toString 42), created_at = 1002\<rparr>],
               db_sequence := 1\<rparr>,
      Inr (toString 42))"
proof -
  let ?rcpt = "\<lparr>logs = [None, Some \<lparr>log_name = ''BountyCreated'', log_args_id = 42\<rparr>],
                blockNumber = 900, transactionHash = ''0xfeed''\<rparr>"
  let ?ev = "\<lparr>log_name = ''BountyCreated'', log_args_id = 42\<rparr>"
  have f: "find (\<lambda>event. log_name event = ''BountyCreated'')
             (map the (filter (\<lambda>event. event \<noteq> None) (logs ?rcpt))) = Some ?ev"
    by simp
  have a: "generated issuance_receipt (recentTitles app_100)
             = Inr (Some ''Hat Day'', Some ''Wear a hat'')
         \<and> createSoloBounty issuance_receipt ''Hat Day'' ''Wear a hat'' = Inr ''0xfeed''
         \<and> wait issuance_receipt ''0xfeed'' = Inr ?rcpt"
    by (simp add: issuance_receipt_def issuance_offline_def)
  have b: "generation_fails issuance_offline
         \<and> createSoloBounty issuance_offline (title (fallbackBounties ! 0))
             (description (fallbackBounties ! 0)) = Inr ''0xfeed''
         \<and> wait issuance_offline ''0xfeed'' = Inr ?rcpt"
    by (simp add: generation_fails_def issuance_offline_def)
  have fb: "fallback (Math_random issuance_offline) app_100 =
             (app_100\<lparr>usedFallbackIndices := {0}\<rparr>, Some (fallbackBounties ! 0))"
    by code_simp
  note one = creation_rows
    [where w = issuance_receipt and s = app_100 and t = "''Hat Day''" and d = "''Wear a hat''"
       and tx = "''0xfeed''" and rcpt = ?rcpt and ev = ?ev
       and ?s1.0 = app_100 and c = "fallbackBounties ! 0"]
  note two = creation_rows
    [where w = issuance_offline and s = app_100 and t = "''Hat Day''" and d = "''Wear a hat''"
       and tx = "''0xfeed''" and rcpt = ?rcpt and ev = ?ev
       and ?s1.0 = "app_100\<lparr>usedFallbackIndices := {0}\<rparr>" and c = "fallbackBounties ! 0"]
  have 1: "createBounty issuance_receipt app_100 =
     (app_100\<lparr>db_bounties :=
                 [\<lparr>row_id = 1, row_title = ''Hat Day'', row_description = ''Wear a hat'',
                   contract_bounty_id = None, created_at = 1000\<rparr>,
                  \<lparr>row_id = 2, row_title = ''Hat Day'', row_description = ''Wear a hat'',
                   contract_bounty_id = Some (toString 42), created_at = 1002\<rparr>],
               db_sequence := 2\<rparr>,
      Inr (toString 42))"
    using one a f by (simp add: app_100_def issuance_receipt_def issuance_offline_def)
  have 2: "createBounty issuance_offline app_100 =
     (app_100\<lparr>usedFallbackIndices := {0},
               db_bounties :=
                 [\<lparr>row_id = 1, row_title = title (fallbackBounties ! 0),
                   row_description = description (fallbackBounties ! 0),
                   contract_bounty_id = Some (toString 42), created_at = 1002\<rparr>],
               db_sequence := 1\<rparr>,
      Inr (toString 42))"
    using two b fb f by (simp add: app_100_def issuance_offline_def)
  from 1 2 show ?thesis by simp
qed

text \<open>
  Claim C6. Where the receipt carries the \<open>BountyCreated\<close> log, \<open>createBounty\<close>
  stores the content together with the identifier (\<open>createBounty_receipt\<close>). Where
  only the query of the block finds the event, it returns the identifier and writes
  nothing (\<open>createBounty_polling\<close>): in the run below the identifier 42 is returned
  and the draft stays without it, while the same run with the log in the receipt ends
  with a row that holds 42.
\<close>

theorem polling_fallback_not_persisted:
  "createBounty issuance_polling app_100 =
     (app_100\<lparr>db_bounties :=
                 [\<lparr>row_id = 1, row_title = ''Hat Day'', row_description = ''Wear a hat'',
                   contract_bounty_id = None, created_at = 1000\<rparr>],
               db_sequence := 1\<rparr>,
      Inr ''42'')
   \<and> map contract_bounty_id (db_bounties (fst (createBounty issuance_polling app_100))) = [None]
   \<and> map contract_bounty_id (db_bounties (fst (createBounty issuance_receipt app_100)))
       = [None, Some ''42'']"
  by code_simp

section \<open>Isolation of failures\<close>



lemma cron_callback_cursor:
  "lastProcessedBlock (fst (cron_callback w s)) = lastProcessedBlock s"
proof -
  obtain s' r where c: "createBounty w s = (s', r)" by (cases "createBounty w s")
  with createBounty_cursor [of w s] have "lastProcessedBlock s' = lastProcessedBlock s" by simp
  with c show ?thesis by (cases r) (simp_all add: cron_callback_def)
qed



lemma rejection_rests_on_scheduler:
  assumes "running P" and "\<not> scheduler_absorbs h" and "createBounty w (app_of P) = (s', Inl err)"
  shows "\<not> running (serve h verify a (Daily w) P)"
  using assms by (simp add: serve_def cron_callback_def Let_def)


text \<open>The daily callback has no handler of its own: when \<open>createBounty\<close> throws, its
  promise is rejected, where the route \<open>/create-bounty\<close> answers with status 500.\<close>

lemma daily_callback_rejects:
  "snd (cron_callback issuance_unresolved app_100) = Rejected bounty_id_not_found
   \<and> snd (create_bounty_route issuance_unresolved app_100)
       = Status_500 ''Bounty ID not found in transaction events''"
  by code_simp



section \<open>Identifier backfill\<close>

lemma toString_nonempty: "toString n \<noteq> []"
  by (subst toString.simps) simp

lemma insort_key_map:
  assumes "\<And>y. k (g y) = k y"
  shows "insort_key k (g x) (map g xs) = map g (insort_key k x xs)"
  by (induction xs) (simp_all add: assms)

lemma sort_key_map:
  assumes "\<And>y. k (g y) = k y"
  shows "sort_key k (map g xs) = map g (sort_key k xs)"
  by (induction xs) (simp_all add: insort_key_map assms)

lemma order_after_update:
  "order_by_created_at_desc (db_bounties (db_update_contract_bounty_id cid key s)) =
     map (\<lambda>r. if row_id r = key then r\<lparr>contract_bounty_id := Some cid\<rparr> else r)
       (order_by_created_at_desc (db_bounties s))"
  unfolding order_by_created_at_desc_def db_update_contract_bounty_id_def
  by (simp add: sort_key_map)

lemma scan_first_match:
  assumes "m < n" and "matches w t d m" and "\<forall>j. m < j \<and> j < n \<longrightarrow> \<not> matches w t d j"
  shows "scan w t d n = (Some (toString m), rev [m..<n])"
  using assms
proof (induction n)
  case 0
  then show ?case by simp
next
  case (Suc n)
  show ?case
  proof (cases "m = n")
    case True
    with Suc.prems(2) show ?thesis
      by (auto simp: matches_def split: sum.splits)
  next
    case False
    with Suc.prems(1) have lt: "m < n" by simp
    have rest: "\<forall>j. m < j \<and> j < n \<longrightarrow> \<not> matches w t d j" using Suc.prems(3) by simp
    have IH: "scan w t d n = (Some (toString m), rev [m..<n])"
      by (rule Suc.IH [OF lt Suc.prems(2) rest])
    have no: "\<not> matches w t d n" using Suc.prems(3) lt by simp
    from lt have up: "[m..<Suc n] = [m..<n] @ [n]" by simp
    from no IH up show ?thesis
      by (auto simp: matches_def split: sum.splits)
  qed
qed

lemma greatest_match:
  assumes "i < n" and "matches w t d i"
  shows "\<exists>m. m < n \<and> matches w t d m \<and> (\<forall>j. m < j \<and> j < n \<longrightarrow> \<not> matches w t d j)"
proof -
  define m where "m = Max {j. j < n \<and> matches w t d j}"
  have fin: "finite {j. j < n \<and> matches w t d j}" by simp
  have ne: "{j. j < n \<and> matches w t d j} \<noteq> {}" using assms by blast
  from Max_in [OF fin ne] have a: "m < n \<and> matches w t d m" by (simp add: m_def)
  have "\<forall>j. m < j \<and> j < n \<longrightarrow> \<not> matches w t d j"
  proof (intro allI impI notI)
    fix j assume "m < j \<and> j < n" and "matches w t d j"
    then have "j \<in> {j. j < n \<and> matches w t d j}" by simp
    from Max_ge [OF fin this] have "j \<le> m" by (simp add: m_def)
    with \<open>m < j \<and> j < n\<close> show False by simp
  qed
  with a show ?thesis by blast
qed

lemma scan_bounded: "set (snd (scan w t d n)) \<subseteq> {0..<n} \<and> length (snd (scan w t d n)) \<le> n"
  by (induction n) (auto split: sum.splits)

text \<open>
  Claim C8. Let the latest row of the table have no identifier, let the counter of the
  ledger be \<open>n\<close>, and let \<open>m\<close> be the highest index below \<open>n\<close> whose lookup returns a
  bounty of the row's title and description (\<open>greatest_match\<close>: there is one as soon
  as any index matches). Then the scan looks up \<open>n - 1\<close>, \<open>n - 2\<close>, ... down to \<open>m\<close>
  and no further, passing the indices whose lookup fails, and returns \<open>m\<close>; the route
  writes that identifier into the row with one \<open>UPDATE\<close>; and a later request finds the
  identifier in the row and neither scans nor writes.
\<close>

theorem backfill:
  assumes counter: "bountyCounter w = Inr n"
    and latest: "order_by_created_at_desc (db_bounties s) = latestBounty # older"
    and missing: "contract_bounty_id latestBounty = None"
    and m: "m < n" "matches w (row_title latestBounty) (row_description latestBounty) m"
    and first: "\<forall>j. m < j \<and> j < n \<longrightarrow>
                  \<not> matches w (row_title latestBounty) (row_description latestBounty) j"
  shows "findContractBountyId w (row_title latestBounty) (row_description latestBounty)
           = (Some (toString m), rev [m..<n])
       \<and> current_bounty w s =
           \<lparr>app_repaired = db_update_contract_bounty_id (toString m) (row_id latestBounty) s,
            writes = [Update_contract_bounty_id (toString m) (row_id latestBounty)],
            lookups = rev [m..<n],
            response_bountyId = Some (toString m),
            status = 200\<rparr>
       \<and> hd (order_by_created_at_desc (db_bounties (app_repaired (current_bounty w s))))
           = latestBounty\<lparr>contract_bounty_id := Some (toString m)\<rparr>
       \<and> writes (current_bounty w' (app_repaired (current_bounty w s))) = []
       \<and> lookups (current_bounty w' (app_repaired (current_bounty w s))) = []
       \<and> app_repaired (current_bounty w' (app_repaired (current_bounty w s)))
           = app_repaired (current_bounty w s)"
proof -
  have f: "findContractBountyId w (row_title latestBounty) (row_description latestBounty)
           = (Some (toString m), rev [m..<n])"
    using counter scan_first_match [OF m first] by (simp add: findContractBountyId_def)
  have c: "current_bounty w s =
           \<lparr>app_repaired = db_update_contract_bounty_id (toString m) (row_id latestBounty) s,
            writes = [Update_contract_bounty_id (toString m) (row_id latestBounty)],
            lookups = rev [m..<n],
            response_bountyId = Some (toString m),
            status = 200\<rparr>"
    using latest missing f by (simp add: current_bounty_def toString_nonempty)
  have o: "order_by_created_at_desc (db_bounties (app_repaired (current_bounty w s))) =
           latestBounty\<lparr>contract_bounty_id := Some (toString m)\<rparr> #
           map (\<lambda>r. if row_id r = row_id latestBounty
                     then r\<lparr>contract_bounty_id := Some (toString m)\<rparr> else r) older"
    by (simp add: c order_after_update latest)
  have h: "hd (order_by_created_at_desc (db_bounties (app_repaired (current_bounty w s))))
           = latestBounty\<lparr>contract_bounty_id := Some (toString m)\<rparr>"
    by (simp add: o)
  have again: "current_bounty w' (app_repaired (current_bounty w s)) =
      \<lparr>app_repaired = app_repaired (current_bounty w s), writes = [], lookups = [],
       response_bountyId = Some (toString m), status = 200\<rparr>"
    unfolding current_bounty_def [of w'] o by (simp add: toString_nonempty)
  from f c h again show ?thesis by simp
qed

theorem backfill_witness:
  "current_bounty world_ledger app_draft =
     \<lparr>app_repaired = db_update_contract_bounty_id (toString 3) 1 app_draft,
      writes = [Update_contract_bounty_id (toString 3) 1],
      lookups = [4, 3],
      response_bountyId = Some (toString 3),
      status = 200\<rparr>
   \<and> writes (current_bounty world_ledger (app_repaired (current_bounty world_ledger app_draft)))
       = []"
proof -
  let ?row = "\<lparr>row_id = 1, row_title = ''Hat Day'', row_description = ''Wear a hat'',
               contract_bounty_id = None, created_at = 1000\<rparr>"
  have counter: "bountyCounter world_ledger = Inr 5"
    by (simp add: world_ledger_def world_105_def)
  have latest: "order_by_created_at_desc (db_bounties app_draft) = ?row # []"
    by (simp add: order_by_created_at_desc_def app_draft_def)
  have missing: "contract_bounty_id ?row = None" by simp
  have lt: "(3::nat) < 5" by simp
  have hit: "matches world_ledger (row_title ?row) (row_description ?row) 3"
    by (simp add: matches_def world_ledger_def)
  have first: "\<forall>j. 3 < j \<and> j < 5 \<longrightarrow>
                 \<not> matches world_ledger (row_title ?row) (row_description ?row) j"
  proof (intro allI impI)
    fix j :: nat assume "3 < j \<and> j < 5"
    then have "j = 4" by simp
    then show "\<not> matches world_ledger (row_title ?row) (row_description ?row) j"
      by (simp add: matches_def world_ledger_def)
  qed
  have r: "rev [3..<5] = [4, 3::nat]" by code_simp
  note t = backfill [OF counter latest missing lt hit first, of world_ledger]
  have 1: "current_bounty world_ledger app_draft =
     \<lparr>app_repaired = db_update_contract_bounty_id (toString 3) 1 app_draft,
      writes = [Update_contract_bounty_id (toString 3) 1],
      lookups = [4, 3],
      response_bountyId = Some (toString 3),
      status = 200\<rparr>"
    using t r by simp
  have 2: "writes (current_bounty world_ledger
                    (app_repaired (current_bounty world_ledger app_draft))) = []"
    using t by blast
  from 1 2 show ?thesis by blast
qed

end
